theory Spec2Isabelle
  imports Main "HOL-Library.Word"
begin

unbundle bit_operations_syntax

section \<open>Data model\<close>

type_synonym byte = "8 word"

text \<open>
  Modelled from the spec: the struct \<open>gomemcached.MCRequest\<close>, declared in the parent
  package and not in \<open>client/mc.go\<close> or \<open>server/mc_conn_handler.go\<close>. The fields are the
  ones both files read and write: \<open>Opcode\<close> (a \<open>CommandCode\<close>, one byte on the wire),
  \<open>Cas\<close>, \<open>Opaque\<close>, \<open>VBucket\<close>, \<open>Extras\<close>, \<open>Key\<close>, \<open>Body\<close>. The field
  \<open>ResponseChannel\<close> is the rendezvous with the handler; it is represented by the
  handler function that \<open>handleMessage\<close> takes.
\<close>

record MCRequest =
  reqOpcode :: byte
  reqCas :: "64 word"
  reqOpaque :: "32 word"
  reqVBucket :: "16 word"
  reqExtras :: "byte list"
  reqKey :: "byte list"
  reqBody :: "byte list"

text \<open>
  Modelled from the spec: the struct \<open>gomemcached.MCResponse\<close>, declared in the parent
  package. The spec lists status, opaque, CAS, extras, key, value and the fatal flag;
  neither source file ever assigns or reads the opaque of a response.
\<close>

record MCResponse =
  resStatus :: "16 word"
  resOpaque :: "32 word"
  resCas :: "64 word"
  resExtras :: "byte list"
  resKey :: "byte list"
  resBody :: "byte list"
  resFatal :: bool

text \<open>The zero values of the two structs (Go's \<open>var rv T\<close>); a nil slice has length 0.\<close>

definition MCRequest_zero :: MCRequest where
  "MCRequest_zero = \<lparr> reqOpcode = 0, reqCas = 0, reqOpaque = 0, reqVBucket = 0,
     reqExtras = [], reqKey = [], reqBody = [] \<rparr>"

definition MCResponse_zero :: MCResponse where
  "MCResponse_zero = \<lparr> resStatus = 0, resOpaque = 0, resCas = 0,
     resExtras = [], resKey = [], resBody = [], resFatal = False \<rparr>"

text \<open>
  Modelled from the spec: the constants \<open>gomemcached.HDR_LEN\<close>, \<open>REQ_MAGIC\<close> and
  \<open>RES_MAGIC\<close> of the parent package (24-byte header, request magic 0x80, response
  magic 0x81).
\<close>

definition HDR_LEN :: nat where
  "HDR_LEN = 24"

definition REQ_MAGIC :: byte where
  "REQ_MAGIC = 0x80"

definition RES_MAGIC :: byte where
  "RES_MAGIC = 0x81"

text \<open>\<open>var MaxBodyLen = uint32(1 * 1e6)\<close>: a package variable of the server, so the
  decoder takes the current value as an argument; this is its initial value.\<close>

definition MaxBodyLen_default :: "32 word" where
  "MaxBodyLen_default = 1000000"

text \<open>
  Errors as values. \<open>BadMagic\<close> is the server's struct \<open>BadMagic{was}\<close>;
  \<open>ErrorString\<close> is \<open>errors.New(msg)\<close>; \<open>TooBig bodyLen max\<close> stands for the
  server's \<open>errors.New(fmt.Sprintf("%d is too big (max %s)", bodyLen,
  humanize.Bytes(uint64(MaxBodyLen))))\<close>, kept structured because the text comes from an
  external formatting library; \<open>EOF\<close> and \<open>ErrUnexpectedEOF\<close> are the two errors of
  \<open>io.ReadFull\<close> at the end of a stream; \<open>TransportError\<close> is any error an underlying
  write reports; \<open>Panic\<close> is a Go panic with its message.
\<close>

datatype error =
    BadMagic byte
  | ErrorString string
  | TooBig "32 word" "32 word"
  | EOF
  | ErrUnexpectedEOF
  | TransportError string
  | Panic string

section \<open>\<open>encoding/binary\<close>: big-endian integers\<close>

definition PutUint16 :: "16 word \<Rightarrow> byte list" where
  "PutUint16 v = [ucast (drop_bit 8 v), ucast v]"

definition PutUint32 :: "32 word \<Rightarrow> byte list" where
  "PutUint32 v = [ucast (drop_bit 24 v), ucast (drop_bit 16 v), ucast (drop_bit 8 v), ucast v]"

definition PutUint64 :: "64 word \<Rightarrow> byte list" where
  "PutUint64 v = [ucast (drop_bit 56 v), ucast (drop_bit 48 v), ucast (drop_bit 40 v),
     ucast (drop_bit 32 v), ucast (drop_bit 24 v), ucast (drop_bit 16 v),
     ucast (drop_bit 8 v), ucast v]"

definition Uint16 :: "byte list \<Rightarrow> 16 word" where
  "Uint16 b = ucast (b ! 1) OR push_bit 8 (ucast (b ! 0))"

definition Uint32 :: "byte list \<Rightarrow> 32 word" where
  "Uint32 b = ucast (b ! 3) OR push_bit 8 (ucast (b ! 2)) OR push_bit 16 (ucast (b ! 1))
     OR push_bit 24 (ucast (b ! 0))"

definition Uint64 :: "byte list \<Rightarrow> 64 word" where
  "Uint64 b = ucast (b ! 7) OR push_bit 8 (ucast (b ! 6)) OR push_bit 16 (ucast (b ! 5))
     OR push_bit 24 (ucast (b ! 4)) OR push_bit 32 (ucast (b ! 3))
     OR push_bit 40 (ucast (b ! 2)) OR push_bit 48 (ucast (b ! 1))
     OR push_bit 56 (ucast (b ! 0))"

text \<open>\<open>make([]byte, n)\<close>: a fresh buffer of \<open>n\<close> zero bytes.\<close>

definition makeBytes :: "nat \<Rightarrow> byte list" where
  "makeBytes n = replicate n 0"

section \<open>The byte stream\<close>

text \<open>
  The read side of a connection is the list of bytes the peer has sent and that have not
  been read yet; the end of the list is the end of the stream. \<open>io.ReadFull(r, buf)\<close>
  fills \<open>buf\<close> from the front of the stream and returns the buffer, the number of bytes
  read and the error: none when the buffer was filled (also when it is empty),
  \<open>EOF\<close> when nothing could be read, \<open>ErrUnexpectedEOF\<close> when the stream ended part-way.
\<close>

definition ReadFull :: "byte list \<Rightarrow> byte list \<Rightarrow> (byte list \<times> nat \<times> error option) \<times> byte list" where
  "ReadFull r buf =
     (let got = take (length buf) r; n = length got
      in ((got @ drop n buf, n,
           if length buf \<le> n then None
           else if 0 < n then Some ErrUnexpectedEOF else Some EOF),
          drop (length buf) r))"

text \<open>
  The write side is a \<open>bufio.Writer\<close> over the connection. Its two operations are
  parameters of the model: \<open>Write\<close> returns the new state of the writer, the number of bytes
  it accepted and its error; \<open>Flush\<close> the new state and its error.
\<close>

record 'w Writer =
  Write :: "'w \<Rightarrow> byte list \<Rightarrow> 'w \<times> nat \<times> error option"
  Flush :: "'w \<Rightarrow> 'w \<times> error option"

text \<open>Two writers to run the code on: one over a stream that accepts every byte (its state
  is the bytes written so far, in order), one over a stream on which every operation fails.\<close>

definition reliable :: "(byte list) Writer" where
  "reliable = \<lparr> Write = (\<lambda>s p. (s @ p, length p, None)), Flush = (\<lambda>s. (s, None)) \<rparr>"

definition broken :: "error \<Rightarrow> (byte list) Writer" where
  "broken e = \<lparr> Write = (\<lambda>s p. (s, 0, Some e)), Flush = (\<lambda>s. (s, Some e)) \<rparr>"

text \<open>Sequencing of write steps: a step that panicked (\<open>Some\<close>) ends the sequence, and the
  writer keeps the state it had reached.\<close>

definition andThen :: "'w \<times> error option \<Rightarrow> ('w \<Rightarrow> 'w \<times> error option) \<Rightarrow> 'w \<times> error option" where
  "andThen r f = (case r of (s, None) \<Rightarrow> f s | (s, Some e) \<Rightarrow> (s, Some e))"

section \<open>The client (\<open>client/mc.go\<close>)\<close>

text \<open>The client's write helpers return nothing and panic with the writer's error; the
  result \<open>Some err\<close> is that panic.\<close>

definition client_writeBytes :: "'w Writer \<Rightarrow> 'w \<Rightarrow> byte list \<Rightarrow> 'w \<times> error option" where
  "client_writeBytes W s data =
     (if 0 < length data
      then (case Write W s data of
              (s', n, Some err) \<Rightarrow> (s', Some err)
            | (s', n, None) \<Rightarrow> (s', None))
      else (s, None))"

definition client_writeByte :: "'w Writer \<Rightarrow> 'w \<Rightarrow> byte \<Rightarrow> 'w \<times> error option" where
  "client_writeByte W s b = client_writeBytes W s ((makeBytes 1)[0 := b])"

definition client_writeUint16 :: "'w Writer \<Rightarrow> 'w \<Rightarrow> 16 word \<Rightarrow> 'w \<times> error option" where
  "client_writeUint16 W s n = client_writeBytes W s (PutUint16 n)"

definition client_writeUint32 :: "'w Writer \<Rightarrow> 'w \<Rightarrow> 32 word \<Rightarrow> 'w \<times> error option" where
  "client_writeUint32 W s n = client_writeBytes W s (PutUint32 n)"

definition client_writeUint64 :: "'w Writer \<Rightarrow> 'w \<Rightarrow> 64 word \<Rightarrow> 'w \<times> error option" where
  "client_writeUint64 W s n = client_writeBytes W s (PutUint64 n)"

text \<open>
  \<open>transmitRequest\<close>: the deferred \<open>recover\<close> turns the panic of a write step into the
  returned error; when no step panicked the function flushes, drops what \<open>Flush\<close>
  returns, and returns nil. \<open>uint16(len(..))\<close>, \<open>uint8(len(..))\<close> and \<open>uint32(len(..))\<close>
  truncate, which \<open>of_nat\<close> into a word does.
\<close>

definition client_transmitRequest :: "'w Writer \<Rightarrow> 'w \<Rightarrow> MCRequest \<Rightarrow> 'w \<times> error option" where
  "client_transmitRequest W w0 req =
     andThen (client_writeByte W w0 REQ_MAGIC) (\<lambda>w.
     andThen (client_writeByte W w (reqOpcode req)) (\<lambda>w.
     andThen (client_writeUint16 W w (of_nat (length (reqKey req)))) (\<lambda>w.
     andThen (client_writeByte W w (of_nat (length (reqExtras req)))) (\<lambda>w.
     andThen (client_writeByte W w 0) (\<lambda>w.
     andThen (client_writeUint16 W w (reqVBucket req)) (\<lambda>w.
     andThen (client_writeUint32 W w (of_nat (length (reqBody req))
                + of_nat (length (reqKey req)) + of_nat (length (reqExtras req)))) (\<lambda>w.
     andThen (client_writeUint32 W w (reqOpaque req)) (\<lambda>w.
     andThen (client_writeUint64 W w (reqCas req)) (\<lambda>w.
     andThen (client_writeBytes W w (reqExtras req)) (\<lambda>w.
     andThen (client_writeBytes W w (reqKey req)) (\<lambda>w.
     andThen (client_writeBytes W w (reqBody req)) (\<lambda>w.
       (fst (Flush W w), None)))))))))))))"

text \<open>\<open>fmt.Sprintf("%02x", b)\<close> for a byte: two lower-case hexadecimal digits.\<close>

definition hexdigit :: "nat \<Rightarrow> char" where
  "hexdigit d = ''0123456789abcdef'' ! d"

definition hex02 :: "byte \<Rightarrow> string" where
  "hex02 b = [hexdigit (unat b div 16), hexdigit (unat b mod 16)]"

text \<open>
  The client's \<open>grokHeader\<close>. The two assignments of the opcode and of the opaque are
  commented out in the source, and the status is taken from byte 7 alone. An index
  beyond the slice panics; the reads need 1 byte for the magic and 24 for the rest.
  \<open>bodyLen\<close> is a \<open>uint32\<close>: the subtraction wraps.
\<close>

definition client_grokHeader :: "byte list \<Rightarrow> MCResponse \<times> error option" where
  "client_grokHeader hdrBytes =
     (if length hdrBytes < 1 then (MCResponse_zero, Some (Panic ''index out of range''))
      else if hdrBytes ! 0 \<noteq> RES_MAGIC
      then (MCResponse_zero, Some (ErrorString (''Bad magic: 0x'' @ hex02 (hdrBytes ! 0))))
      else if length hdrBytes < 24 then (MCResponse_zero, Some (Panic ''index out of range''))
      else
        (let key = makeBytes (unat (Uint16 (drop 2 hdrBytes)));
             extras = makeBytes (unat (hdrBytes ! 4));
             status = (ucast (hdrBytes ! 7) :: 16 word);
             bodyLen = Uint32 (drop 8 hdrBytes) - of_nat (length key) - of_nat (length extras)
         in (MCResponse_zero \<lparr> resKey := key, resExtras := extras, resStatus := status,
               resBody := makeBytes (unat bodyLen), resCas := Uint64 (drop 16 hdrBytes) \<rparr>, None)))"

definition client_readOb :: "byte list \<Rightarrow> byte list \<Rightarrow> (byte list \<times> error option) \<times> byte list" where
  "client_readOb s buf =
     (case ReadFull s buf of ((buf', n, err), s') \<Rightarrow>
        (if err \<noteq> None then ((buf', err), s') else ((buf', None), s')))"

definition client_readContents :: "byte list \<Rightarrow> MCResponse \<Rightarrow> (MCResponse \<times> error option) \<times> byte list" where
  "client_readContents s res =
     (case client_readOb s (resExtras res) of ((ex, err), s1) \<Rightarrow>
        let res1 = res \<lparr> resExtras := ex \<rparr> in
        if err \<noteq> None then ((res1, err), s1)
        else (case client_readOb s1 (resKey res1) of ((k, err), s2) \<Rightarrow>
          let res2 = res1 \<lparr> resKey := k \<rparr> in
          if err \<noteq> None then ((res2, err), s2)
          else (case client_readOb s2 (resBody res2) of ((b, err), s3) \<Rightarrow>
            ((res2 \<lparr> resBody := b \<rparr>, err), s3))))"

text \<open>The \<open>Client\<close> struct: the read side of \<open>conn\<close>, the buffered writer over its write
  side, and the header buffer that \<open>Connect\<close> allocates once with \<open>HDR_LEN\<close> bytes.\<close>

record 'w Client =
  conn :: "byte list"
  writer :: 'w
  hdrBuf :: "byte list"

definition getResponse :: "'w Client \<Rightarrow> (MCResponse \<times> error option) \<times> 'w Client" where
  "getResponse client =
     (case ReadFull (conn client) (hdrBuf client) of ((buf, n, err), s) \<Rightarrow>
        let c1 = client \<lparr> conn := s, hdrBuf := buf \<rparr> in
        if err \<noteq> None then ((MCResponse_zero, err), c1)
        else (case client_grokHeader buf of (rv, err) \<Rightarrow>
          if err \<noteq> None then ((rv, err), c1)
          else (case client_readContents s rv of ((rv', err), s') \<Rightarrow>
            ((rv', err), c1 \<lparr> conn := s' \<rparr>))))"

definition Send :: "'w Writer \<Rightarrow> 'w Client \<Rightarrow> MCRequest \<Rightarrow> (MCResponse \<times> error option) \<times> 'w Client" where
  "Send W client req =
     (case client_transmitRequest W (writer client) req of (w, err) \<Rightarrow>
        let c1 = client \<lparr> writer := w \<rparr> in
        if err \<noteq> None then ((MCResponse_zero, err), c1)
        else getResponse c1)"

text \<open>\<open>Transmit\<close> has no result: what \<open>transmitRequest\<close> returns is dropped.\<close>

definition Transmit :: "'w Writer \<Rightarrow> 'w Client \<Rightarrow> MCRequest \<Rightarrow> 'w Client" where
  "Transmit W client req = client \<lparr> writer := fst (client_transmitRequest W (writer client) req) \<rparr>"

definition Receive :: "'w Client \<Rightarrow> (MCResponse \<times> error option) \<times> 'w Client" where
  "Receive client = getResponse client"

text \<open>
  \<open>Stats\<close>. A \<open>StatValue\<close> holds two Go strings, which are byte sequences. The loop
  \<open>for { ... }\<close> reads responses until one fails or carries an empty key; every
  successful read consumes at least the 24 header bytes, so on a finite stream the loop
  terminates. The opcode \<open>gomemcached.STAT\<close> is a constant of the parent package and
  is a parameter here.
\<close>

record StatValue =
  Key :: "byte list"
  Val :: "byte list"

function Stats_loop :: "'w Client \<Rightarrow> StatValue list \<Rightarrow> (StatValue list \<times> error option) \<times> 'w Client" where
  "Stats_loop client rv =
     (let r = getResponse client; res = fst (fst r); err = snd (fst r); c1 = snd r
      in if err \<noteq> None then ((rv, err), c1)
         else if resKey res = [] then ((rv, None), c1)
         else Stats_loop c1 (rv @ [\<lparr> Key = resKey res, Val = resBody res \<rparr>]))"
  by pat_completeness auto

definition Stats :: "'w Writer \<Rightarrow> byte \<Rightarrow> 'w Client \<Rightarrow> byte list \<Rightarrow> (StatValue list \<times> error option) \<times> 'w Client" where
  "Stats W STAT client key =
     (let req = MCRequest_zero \<lparr> reqOpcode := STAT, reqVBucket := 0, reqCas := 0,
                  reqOpaque := 918494, reqKey := key, reqExtras := [], reqBody := [] \<rparr>
      in case client_transmitRequest W (writer client) req of (w, err) \<Rightarrow>
           let c1 = client \<lparr> writer := w \<rparr> in
           if err \<noteq> None then (([], err), c1) else Stats_loop c1 [])"

section \<open>The server (\<open>server/mc_conn_handler.go\<close>)\<close>

text \<open>
  The server's \<open>writeBytes\<close> returns the writer's error and panics on a short write
  without error. Its callers (\<open>writeByte\<close>, \<open>writeUint16\<close>, \<open>writeUint32\<close>,
  \<open>writeUint64\<close> and \<open>transmitResponse\<close>) call it as a statement: the returned error
  is dropped, a panic still unwinds. \<open>discardError\<close> is that call.
\<close>

definition server_writeBytes :: "'w Writer \<Rightarrow> 'w \<Rightarrow> byte list \<Rightarrow> 'w \<times> error option" where
  "server_writeBytes W s data =
     (if 0 < length data
      then (case Write W s data of
              (s', written, Some err) \<Rightarrow> (s', Some err)
            | (s', written, None) \<Rightarrow>
                if written \<noteq> length data
                then (s', Some (Panic ''Expected a full write, but didn't get one''))
                else (s', None))
      else (s, None))"

definition discardError :: "'w \<times> error option \<Rightarrow> 'w \<times> error option" where
  "discardError r =
     (case r of (s, Some (Panic m)) \<Rightarrow> (s, Some (Panic m)) | (s, _) \<Rightarrow> (s, None))"

definition server_writeByte :: "'w Writer \<Rightarrow> 'w \<Rightarrow> byte \<Rightarrow> 'w \<times> error option" where
  "server_writeByte W s b = discardError (server_writeBytes W s ((makeBytes 1)[0 := b]))"

definition server_writeUint16 :: "'w Writer \<Rightarrow> 'w \<Rightarrow> 16 word \<Rightarrow> 'w \<times> error option" where
  "server_writeUint16 W s n = discardError (server_writeBytes W s (PutUint16 n))"

definition server_writeUint32 :: "'w Writer \<Rightarrow> 'w \<Rightarrow> 32 word \<Rightarrow> 'w \<times> error option" where
  "server_writeUint32 W s n = discardError (server_writeBytes W s (PutUint32 n))"

definition server_writeUint64 :: "'w Writer \<Rightarrow> 'w \<Rightarrow> 64 word \<Rightarrow> 'w \<times> error option" where
  "server_writeUint64 W s n = discardError (server_writeBytes W s (PutUint64 n))"

text \<open>\<open>transmitResponse\<close> has no result; \<open>Some\<close> can only be a panic. The opcode and the
  opaque are the request's. What \<open>Flush\<close> returns is dropped.\<close>

definition server_transmitResponse :: "'w Writer \<Rightarrow> 'w \<Rightarrow> MCRequest \<Rightarrow> MCResponse \<Rightarrow> 'w \<times> error option" where
  "server_transmitResponse W w0 req res =
     andThen (server_writeByte W w0 RES_MAGIC) (\<lambda>w.
     andThen (server_writeByte W w (reqOpcode req)) (\<lambda>w.
     andThen (server_writeUint16 W w (of_nat (length (resKey res)))) (\<lambda>w.
     andThen (server_writeByte W w (of_nat (length (resExtras res)))) (\<lambda>w.
     andThen (server_writeByte W w 0) (\<lambda>w.
     andThen (server_writeUint16 W w (resStatus res)) (\<lambda>w.
     andThen (server_writeUint32 W w (of_nat (length (resBody res))
                + of_nat (length (resKey res)) + of_nat (length (resExtras res)))) (\<lambda>w.
     andThen (server_writeUint32 W w (reqOpaque req)) (\<lambda>w.
     andThen (server_writeUint64 W w (resCas res)) (\<lambda>w.
     andThen (discardError (server_writeBytes W w (resExtras res))) (\<lambda>w.
     andThen (discardError (server_writeBytes W w (resKey res))) (\<lambda>w.
     andThen (discardError (server_writeBytes W w (resBody res))) (\<lambda>w.
       (fst (Flush W w), None)))))))))))))"

definition server_readOb :: "byte list \<Rightarrow> byte list \<Rightarrow> (byte list \<times> error option) \<times> byte list" where
  "server_readOb s buf =
     (case ReadFull s buf of ((buf', x, err), s') \<Rightarrow>
        (if err = None \<and> x \<noteq> length buf then ((buf', Some (Panic ''Read full didn't'')), s')
         else ((buf', err), s')))"

definition server_readContents :: "byte list \<Rightarrow> MCRequest \<Rightarrow> (MCRequest \<times> error option) \<times> byte list" where
  "server_readContents s req =
     (case server_readOb s (reqExtras req) of ((ex, err), s1) \<Rightarrow>
        let req1 = req \<lparr> reqExtras := ex \<rparr> in
        if err \<noteq> None then ((req1, err), s1)
        else (case server_readOb s1 (reqKey req1) of ((k, err), s2) \<Rightarrow>
          let req2 = req1 \<lparr> reqKey := k \<rparr> in
          if err \<noteq> None then ((req2, err), s2)
          else (case server_readOb s2 (reqBody req2) of ((b, err), s3) \<Rightarrow>
            ((req2 \<lparr> reqBody := b \<rparr>, err), s3))))"

text \<open>
  The server's \<open>grokHeader\<close>, with the current \<open>MaxBodyLen\<close> as first argument. The key
  and extras buffers are made before the body length is checked and are part of the value
  returned with the error. \<open>bodyLen\<close> is a \<open>uint32\<close>: the subtraction wraps. An index
  beyond the slice panics: the magic needs 1 byte, the fields up to the total body
  length 12, the opaque and the CAS 24.
\<close>

definition server_grokHeader :: "32 word \<Rightarrow> byte list \<Rightarrow> MCRequest \<times> error option" where
  "server_grokHeader MaxBodyLen hdrBytes =
     (if length hdrBytes < 1 then (MCRequest_zero, Some (Panic ''index out of range''))
      else if hdrBytes ! 0 \<noteq> REQ_MAGIC then (MCRequest_zero, Some (BadMagic (hdrBytes ! 0)))
      else if length hdrBytes < 12 then (MCRequest_zero, Some (Panic ''index out of range''))
      else
        (let rv = MCRequest_zero \<lparr> reqOpcode := hdrBytes ! 1,
                    reqKey := makeBytes (unat (Uint16 (drop 2 hdrBytes))),
                    reqExtras := makeBytes (unat (hdrBytes ! 4)),
                    reqVBucket := Uint16 (drop 6 hdrBytes) \<rparr>;
             bodyLen = Uint32 (drop 8 hdrBytes) - of_nat (length (reqKey rv))
                         - of_nat (length (reqExtras rv))
         in if bodyLen > MaxBodyLen then (rv, Some (TooBig bodyLen MaxBodyLen))
            else if length hdrBytes < 24 then (rv, Some (Panic ''index out of range''))
            else (rv \<lparr> reqBody := makeBytes (unat bodyLen),
                      reqOpaque := Uint32 (drop 12 hdrBytes),
                      reqCas := Uint64 (drop 16 hdrBytes) \<rparr>, None)))"

definition ReadPacket :: "32 word \<Rightarrow> byte list \<Rightarrow> (MCRequest \<times> error option) \<times> byte list" where
  "ReadPacket MaxBodyLen r =
     (case ReadFull r (makeBytes HDR_LEN) of ((hdrBytes, bytesRead, err), r1) \<Rightarrow>
        if err \<noteq> None then ((MCRequest_zero, err), r1)
        else if bytesRead \<noteq> HDR_LEN
        then ((MCRequest_zero, Some (Panic ''Expected to read full and didn't'')), r1)
        else (case server_grokHeader MaxBodyLen hdrBytes of (rv, err) \<Rightarrow>
          if err \<noteq> None then ((rv, err), r1)
          else server_readContents r1 rv))"

text \<open>
  One connection as the dispatcher sees it: the unread inbound bytes, the writer over the
  outbound side, the state of the external handler, and whether \<open>Close\<close> has been called.
  The handler is the other end of the two channels: \<open>reqChannel <- req\<close> followed by
  \<open><-req.ResponseChannel\<close> hands it the request and blocks until its one response; here
  it is a function of its own state and the request.
\<close>

record ('w, 'h) ServerConn =
  inbound :: "byte list"
  outbound :: 'w
  worker :: 'h
  closed :: bool

text \<open>\<open>handleMessage\<close> returns \<open>ret\<close>; the second component is a panic unwinding through it.\<close>

definition handleMessage ::
  "'w Writer \<Rightarrow> ('h \<Rightarrow> MCRequest \<Rightarrow> MCResponse \<times> 'h) \<Rightarrow> 32 word \<Rightarrow> ('w, 'h) ServerConn
     \<Rightarrow> (bool \<times> error option) \<times> ('w, 'h) ServerConn" where
  "handleMessage W handler MaxBodyLen s =
     (case ReadPacket MaxBodyLen (inbound s) of
        ((req, Some (Panic m)), r) \<Rightarrow> ((False, Some (Panic m)), s \<lparr> inbound := r \<rparr>)
      | ((req, Some err), r) \<Rightarrow> ((False, None), s \<lparr> inbound := r \<rparr>)
      | ((req, None), r) \<Rightarrow>
          (case handler (worker s) req of (res, h) \<Rightarrow>
             let ret = \<not> resFatal res; s1 = s \<lparr> inbound := r, worker := h \<rparr> in
             if ret
             then (case server_transmitResponse W (outbound s1) req res of (w, p) \<Rightarrow>
                     ((ret, p), s1 \<lparr> outbound := w \<rparr>))
             else ((ret, None), s1)))"

text \<open>\<open>HandleIO\<close>: \<open>for handleMessage(s, s, reqChannel) {}\<close> under \<open>defer s.Close()\<close>, which
  also runs when a panic unwinds. Every iteration that returns true has consumed a header.\<close>

function HandleIO_loop ::
  "'w Writer \<Rightarrow> ('h \<Rightarrow> MCRequest \<Rightarrow> MCResponse \<times> 'h) \<Rightarrow> 32 word \<Rightarrow> ('w, 'h) ServerConn
     \<Rightarrow> error option \<times> ('w, 'h) ServerConn" where
  "HandleIO_loop W handler MaxBodyLen s =
     (let r = handleMessage W handler MaxBodyLen s; ret = fst (fst r); p = snd (fst r); s1 = snd r
      in if p \<noteq> None then (p, s1)
         else if ret then HandleIO_loop W handler MaxBodyLen s1
         else (None, s1))"
  by pat_completeness auto

definition HandleIO ::
  "'w Writer \<Rightarrow> ('h \<Rightarrow> MCRequest \<Rightarrow> MCResponse \<times> 'h) \<Rightarrow> 32 word \<Rightarrow> ('w, 'h) ServerConn
     \<Rightarrow> error option \<times> ('w, 'h) ServerConn" where
  "HandleIO W handler MaxBodyLen s =
     (case HandleIO_loop W handler MaxBodyLen s of (p, s1) \<Rightarrow> (p, s1 \<lparr> closed := True \<rparr>))"

section \<open>Wire images\<close>

text \<open>The bytes a request and a response put on a stream that accepts every write: what
  the two transmit functions leave in the reliable writer, started empty.\<close>

definition request_wire :: "MCRequest \<Rightarrow> byte list" where
  "request_wire req = fst (client_transmitRequest reliable [] req)"

definition response_wire :: "MCRequest \<Rightarrow> MCResponse \<Rightarrow> byte list" where
  "response_wire req res = fst (server_transmitResponse reliable [] req res)"

text \<open>The result of the first nine write steps of either transmit function, as a function
  of the nine values written (lemmas \<open>client_transmitRequest_reliable\<close> and
  \<open>server_transmitResponse_reliable\<close> below); used to state the layout once.\<close>

definition header_bytes ::
  "byte \<Rightarrow> byte \<Rightarrow> 16 word \<Rightarrow> byte \<Rightarrow> 16 word \<Rightarrow> 32 word \<Rightarrow> 32 word \<Rightarrow> 64 word \<Rightarrow> byte list" where
  "header_bytes magic opcode klen elen vs tot opaque cas =
     [magic, opcode] @ PutUint16 klen @ [elen, 0] @ PutUint16 vs @ PutUint32 tot
       @ PutUint32 opaque @ PutUint64 cas"

text \<open>Two request headers (opcode 1, key length 3, no extras, opaque 42): the first declares
  a total body length of 1000004, hence a value of 1000001 bytes, the second 1000003,
  hence a value of exactly 1000000 bytes.\<close>

definition oversized_header :: "byte list" where
  "oversized_header = [0x80, 0x01, 0x00, 0x03, 0x00, 0x00, 0x00, 0x00, 0x00, 0x0F, 0x42, 0x44,
     0x00, 0x00, 0x00, 0x2A, 0, 0, 0, 0, 0, 0, 0, 0]"

definition maximal_header :: "byte list" where
  "maximal_header = [0x80, 0x01, 0x00, 0x03, 0x00, 0x00, 0x00, 0x00, 0x00, 0x0F, 0x42, 0x43,
     0x00, 0x00, 0x00, 0x2A, 0, 0, 0, 0, 0, 0, 0, 0]"

text \<open>A request (opcode 0, vbucket 7, opaque 42, key "abc") and a response to it (status 0,
  CAS 5, four bytes of extras, value "xyz"), with the bytes they have on the wire.\<close>

definition sample_request :: MCRequest where
  "sample_request = \<lparr> reqOpcode = 0, reqCas = 0, reqOpaque = 42, reqVBucket = 7,
     reqExtras = [], reqKey = [0x61, 0x62, 0x63], reqBody = [] \<rparr>"

definition sample_request_bytes :: "byte list" where
  "sample_request_bytes = [0x80, 0x00, 0x00, 0x03, 0x00, 0x00, 0x00, 0x07,
     0x00, 0x00, 0x00, 0x03, 0x00, 0x00, 0x00, 0x2A, 0, 0, 0, 0, 0, 0, 0, 0,
     0x61, 0x62, 0x63]"

definition sample_response :: MCResponse where
  "sample_response = \<lparr> resStatus = 0, resOpaque = 0, resCas = 5,
     resExtras = [0xDE, 0xAD, 0xBE, 0xEF], resKey = [], resBody = [0x78, 0x79, 0x7A],
     resFatal = False \<rparr>"

definition sample_response_bytes :: "byte list" where
  "sample_response_bytes = [0x81, 0x00, 0x00, 0x00, 0x04, 0x00, 0x00, 0x00,
     0x00, 0x00, 0x00, 0x07, 0x00, 0x00, 0x00, 0x2A, 0, 0, 0, 0, 0, 0, 0, 5,
     0xDE, 0xAD, 0xBE, 0xEF, 0x78, 0x79, 0x7A]"

text \<open>A response header with key length 1 and total body length 0.\<close>

definition underflow_header :: "byte list" where
  "underflow_header = [0x81, 0x10, 0x00, 0x01, 0x00, 0x00, 0x00, 0x00, 0x00, 0x00, 0x00, 0x00,
     0, 0, 0, 0, 0, 0, 0, 0, 0, 0, 0, 0]"

text \<open>A response header with opcode 0x10 in byte 1, status 0x0100 in bytes 6-7 and opaque
  0xDEADBEEF in bytes 12-15; every other byte after the magic is zero.\<close>

definition tagged_response_header :: "byte list" where
  "tagged_response_header = [0x81, 0x10, 0x00, 0x00, 0x00, 0x00, 0x01, 0x00,
     0x00, 0x00, 0x00, 0x00, 0xDE, 0xAD, 0xBE, 0xEF, 0, 0, 0, 0, 0, 0, 0, 0]"

text \<open>Two stat responses, "pid" = "42" and "up" = "7".\<close>

definition stat_pid :: MCResponse where
  "stat_pid = \<lparr> resStatus = 0, resOpaque = 0, resCas = 0, resExtras = [],
     resKey = [0x70, 0x69, 0x64], resBody = [0x34, 0x32], resFatal = False \<rparr>"

definition stat_up :: MCResponse where
  "stat_up = \<lparr> resStatus = 0, resOpaque = 0, resCas = 0, resExtras = [],
     resKey = [0x75, 0x70], resBody = [0x37], resFatal = False \<rparr>"

text \<open>Two more requests: a second one (opcode 1, opaque 43, key "k", value "v") and one
  with opcode 0x07, and a handler to run the dispatcher with: it answers every request with the request's
  key and value, marks the answer to opcode 0x07 as fatal, and counts the requests it
  has seen.\<close>

definition echo_handler :: "nat \<Rightarrow> MCRequest \<Rightarrow> MCResponse \<times> nat" where
  "echo_handler n req =
     (MCResponse_zero \<lparr> resKey := reqKey req, resBody := reqBody req,
        resFatal := (reqOpcode req = 0x07) \<rparr>, Suc n)"

definition second_request :: MCRequest where
  "second_request = \<lparr> reqOpcode = 1, reqCas = 0, reqOpaque = 43, reqVBucket = 7,
     reqExtras = [], reqKey = [0x6B], reqBody = [0x76] \<rparr>"

definition quit_request :: MCRequest where
  "quit_request = \<lparr> reqOpcode = 0x07, reqCas = 0, reqOpaque = 44, reqVBucket = 0,
     reqExtras = [], reqKey = [], reqBody = [] \<rparr>"

text \<open>A third writer: its buffer accepts every write and its \<open>Flush\<close> fails, so that
  nothing reaches the stream.\<close>

definition unflushable :: "error \<Rightarrow> (byte list) Writer" where
  "unflushable e = \<lparr> Write = (\<lambda>s p. (s, length p, None)), Flush = (\<lambda>s. (s, Some e)) \<rparr>"

text \<open>The bytes of the second request and of the request with opcode 0x07, and the bytes
  of the responses that the handler's answers to the first and to the second request have
  on the wire (magic 0x81, the request's opcode and opaque, the key and value echoed).\<close>

definition second_request_bytes :: "byte list" where
  "second_request_bytes = [0x80, 0x01, 0x00, 0x01, 0x00, 0x00, 0x00, 0x07,
     0x00, 0x00, 0x00, 0x02, 0x00, 0x00, 0x00, 0x2B, 0, 0, 0, 0, 0, 0, 0, 0,
     0x6B, 0x76]"

definition quit_request_bytes :: "byte list" where
  "quit_request_bytes = [0x80, 0x07, 0x00, 0x00, 0x00, 0x00, 0x00, 0x00,
     0x00, 0x00, 0x00, 0x00, 0x00, 0x00, 0x00, 0x2C, 0, 0, 0, 0, 0, 0, 0, 0]"

definition first_echo_bytes :: "byte list" where
  "first_echo_bytes = [0x81, 0x00, 0x00, 0x03, 0x00, 0x00, 0x00, 0x00,
     0x00, 0x00, 0x00, 0x03, 0x00, 0x00, 0x00, 0x2A, 0, 0, 0, 0, 0, 0, 0, 0,
     0x61, 0x62, 0x63]"

definition second_echo_bytes :: "byte list" where
  "second_echo_bytes = [0x81, 0x01, 0x00, 0x01, 0x00, 0x00, 0x00, 0x00,
     0x00, 0x00, 0x00, 0x02, 0x00, 0x00, 0x00, 0x2B, 0, 0, 0, 0, 0, 0, 0, 0,
     0x6B, 0x76]"

section \<open>Auxiliary facts\<close>

subsection \<open>Reading\<close>

lemma length_makeBytes [simp]: "length (makeBytes n) = n"
  by (simp add: makeBytes_def)

lemma ReadFull_rest: "snd (ReadFull r buf) = drop (length buf) r"
  by (simp add: ReadFull_def Let_def)

lemma ReadFull_err: "snd (snd (fst (ReadFull r buf))) = None \<longleftrightarrow> length buf \<le> length r"
  by (auto simp add: ReadFull_def Let_def)

lemma ReadFull_ok:
  "length buf \<le> length r \<Longrightarrow>
     ReadFull r buf = ((take (length buf) r, length buf, None), drop (length buf) r)"
  by (simp add: ReadFull_def Let_def)

lemma ReadFull_append [simp]: "ReadFull (b @ rest) (makeBytes (length b)) = ((b, length b, None), rest)"
  by (simp add: ReadFull_def Let_def makeBytes_def)

lemma client_readOb_rest: "snd (client_readOb s buf) = drop (length buf) s"
  by (simp add: client_readOb_def ReadFull_def Let_def)

lemma server_readOb_rest: "snd (server_readOb s buf) = drop (length buf) s"
  by (simp add: server_readOb_def ReadFull_def Let_def)

lemma client_readContents_le: "length (snd (client_readContents s res)) \<le> length s"
  by (simp add: client_readContents_def client_readOb_def ReadFull_def Let_def split: prod.splits)

lemma server_readContents_le: "length (snd (server_readContents s req)) \<le> length s"
  by (simp add: server_readContents_def server_readOb_def ReadFull_def Let_def split: prod.splits)

lemma client_grokHeader_ok_len: "snd (client_grokHeader h) = None \<Longrightarrow> 24 \<le> length h"
  by (simp add: client_grokHeader_def split: if_splits)

lemma getResponse_consumes:
  assumes "snd (fst (getResponse c)) = None"
  shows "length (conn (snd (getResponse c))) < length (conn c)"
proof -
  obtain buf n err s where rf: "ReadFull (conn c) (hdrBuf c) = ((buf, n, err), s)"
    by (metis prod.exhaust)
  show ?thesis
  proof (cases "err = None")
    case False
    with rf assms show ?thesis by (simp add: getResponse_def Let_def)
  next
    case True
    from rf True have le: "length (hdrBuf c) \<le> length (conn c)"
      using ReadFull_err [of "conn c" "hdrBuf c"] by simp
    from rf le have buf: "buf = take (length (hdrBuf c)) (conn c)" and s: "s = drop (length (hdrBuf c)) (conn c)"
      by (auto simp add: ReadFull_ok)
    obtain rv e2 where gh: "client_grokHeader buf = (rv, e2)" by (metis prod.exhaust)
    from rf True gh assms have e2: "e2 = None"
      by (auto simp add: getResponse_def Let_def split: if_splits)
    with gh have "24 \<le> length buf" using client_grokHeader_ok_len [of buf] by simp
    with buf le have big: "24 \<le> length (hdrBuf c)" by simp
    have "length (snd (client_readContents s rv)) \<le> length s" by (rule client_readContents_le)
    with rf True gh e2 s big le show ?thesis
      by (auto simp add: getResponse_def Let_def split: prod.splits)
  qed
qed

termination Stats_loop
  by (relation "measure (\<lambda>(c, rv). length (conn c))") (auto simp add: getResponse_consumes)

declare Stats_loop.simps [simp del]

lemma server_grokHeader_ok_len: "snd (server_grokHeader mx h) = None \<Longrightarrow> 24 \<le> length h"
  by (simp add: server_grokHeader_def Let_def split: if_splits)

lemma ReadPacket_header:
  "24 \<le> length r \<Longrightarrow>
   ReadPacket mx r =
     (case server_grokHeader mx (take 24 r) of (rv, err) \<Rightarrow>
        if err \<noteq> None then ((rv, err), drop 24 r) else server_readContents (drop 24 r) rv)"
  by (simp add: ReadPacket_def HDR_LEN_def ReadFull_ok)

lemma ReadPacket_consumes:
  assumes "snd (fst (ReadPacket mx r)) = None"
  shows "length (snd (ReadPacket mx r)) < length r"
proof -
  have le: "24 \<le> length r"
    by (rule ccontr)
      (use assms in \<open>auto simp add: ReadPacket_def ReadFull_def HDR_LEN_def Let_def
          split: if_splits\<close>)
  obtain hv e where gh: "server_grokHeader mx (take 24 r) = (hv, e)"
    by (metis prod.exhaust)
  show ?thesis
  proof (cases "e = None")
    case True
    with le gh have "ReadPacket mx r = server_readContents (drop 24 r) hv"
      by (simp add: ReadPacket_header)
    moreover have "length (snd (server_readContents (drop 24 r) hv)) \<le> length r - 24"
      using server_readContents_le [of "drop 24 r" hv] by simp
    ultimately show ?thesis using le by simp
  next
    case False
    with le gh assms show ?thesis
      by (simp add: ReadPacket_header)
  qed
qed

lemma handleMessage_consumes:
  assumes "fst (fst (handleMessage W handler mx s))"
  shows "length (inbound (snd (handleMessage W handler mx s))) < length (inbound s)"
proof -
  obtain req err r where rp: "ReadPacket mx (inbound s) = ((req, err), r)"
    by (metis prod.exhaust)
  with assms have "err = None"
    by (auto simp add: handleMessage_def split: option.splits error.splits)
  with rp have "length r < length (inbound s)"
    using ReadPacket_consumes [of mx "inbound s"] by simp
  with rp \<open>err = None\<close> show ?thesis
    by (auto simp add: handleMessage_def Let_def split: prod.splits)
qed

termination HandleIO_loop
  by (relation "measure (\<lambda>(W, handler, mx, s). length (inbound s))")
    (auto simp add: handleMessage_consumes)

declare HandleIO_loop.simps [simp del]

subsection \<open>Writing and the header layout\<close>

lemma length_PutUint16 [simp]: "length (PutUint16 v) = 2"
  by (simp add: PutUint16_def)

lemma length_PutUint32 [simp]: "length (PutUint32 v) = 4"
  by (simp add: PutUint32_def)

lemma length_PutUint64 [simp]: "length (PutUint64 v) = 8"
  by (simp add: PutUint64_def)

lemma PutUint16_nonempty [simp]: "PutUint16 v \<noteq> []"
  by (simp add: PutUint16_def)

lemma PutUint32_nonempty [simp]: "PutUint32 v \<noteq> []"
  by (simp add: PutUint32_def)

lemma PutUint64_nonempty [simp]: "PutUint64 v \<noteq> []"
  by (simp add: PutUint64_def)

lemma client_writeBytes_reliable:
  "client_writeBytes reliable s data = (s @ data, None)"
  by (simp add: client_writeBytes_def reliable_def)

lemma server_writeBytes_reliable:
  "server_writeBytes reliable s data = (s @ data, None)"
  by (simp add: server_writeBytes_def reliable_def)

lemma andThen_ok [simp]: "andThen (s, None) f = f s"
  by (simp add: andThen_def)

lemma andThen_fail [simp]: "andThen (s, Some e) f = (s, Some e)"
  by (simp add: andThen_def)

lemma discardError_ok [simp]: "discardError (s, None) = (s, None)"
  by (simp add: discardError_def)

lemma client_transmitRequest_reliable:
  "client_transmitRequest reliable w req =
     (w @ header_bytes REQ_MAGIC (reqOpcode req) (of_nat (length (reqKey req)))
            (of_nat (length (reqExtras req))) (reqVBucket req)
            (of_nat (length (reqBody req)) + of_nat (length (reqKey req))
               + of_nat (length (reqExtras req)))
            (reqOpaque req) (reqCas req)
        @ reqExtras req @ reqKey req @ reqBody req, None)"
  by (simp add: client_transmitRequest_def client_writeByte_def client_writeUint16_def
      client_writeUint32_def client_writeUint64_def client_writeBytes_reliable
      header_bytes_def makeBytes_def)
    (simp add: reliable_def)

lemma server_transmitResponse_reliable:
  "server_transmitResponse reliable w req res =
     (w @ header_bytes RES_MAGIC (reqOpcode req) (of_nat (length (resKey res)))
            (of_nat (length (resExtras res))) (resStatus res)
            (of_nat (length (resBody res)) + of_nat (length (resKey res))
               + of_nat (length (resExtras res)))
            (reqOpaque req) (resCas res)
        @ resExtras res @ resKey res @ resBody res, None)"
  by (simp add: server_transmitResponse_def server_writeByte_def server_writeUint16_def
      server_writeUint32_def server_writeUint64_def server_writeBytes_reliable
      header_bytes_def makeBytes_def)
    (simp add: reliable_def)


lemma Uint16_Put: "Uint16 (PutUint16 v @ rest) = v"
  unfolding Uint16_def PutUint16_def
  apply (rule bit_word_eqI)
  apply (auto simp add: bit_simps nth_append)
  done

lemma Uint32_Put: "Uint32 (PutUint32 v @ rest) = v"
  unfolding Uint32_def PutUint32_def
  apply (rule bit_word_eqI)
  apply (simp add: bit_simps nth_append cong: conj_cong)
  apply (case_tac "bit v n"; simp)
  apply arith
  done

lemma Uint64_Put: "Uint64 (PutUint64 v @ rest) = v"
  unfolding Uint64_def PutUint64_def
  apply (rule bit_word_eqI)
  apply (simp add: bit_simps nth_append less_diff_conv2 cong: conj_cong)
  apply (case_tac "bit v n"; simp)
  apply linarith
  done

lemma length_header_bytes [simp]: "length (header_bytes m opc k e v t q c) = 24"
  by (simp add: header_bytes_def)

lemma header_bytes_magic: "(header_bytes m opc k e v t q c @ rest) ! 0 = m"
  by (simp add: header_bytes_def)

lemma header_bytes_opcode: "(header_bytes m opc k e v t q c @ rest) ! 1 = opc"
  by (simp add: header_bytes_def)

lemma header_bytes_klen: "Uint16 (drop 2 (header_bytes m opc k e v t q c @ rest)) = k"
  by (simp add: header_bytes_def Uint16_Put)

lemma header_bytes_elen: "(header_bytes m opc k e v t q c @ rest) ! 4 = e"
  by (simp add: header_bytes_def nth_append)

lemma header_bytes_vs: "Uint16 (drop 6 (header_bytes m opc k e v t q c @ rest)) = v"
  by (simp add: header_bytes_def Uint16_Put)

lemma header_bytes_status_low: "(header_bytes m opc k e v t q c @ rest) ! 7 = ucast v"
  by (simp add: header_bytes_def nth_append PutUint16_def)

lemma header_bytes_total: "Uint32 (drop 8 (header_bytes m opc k e v t q c @ rest)) = t"
  by (simp add: header_bytes_def Uint32_Put)

lemma header_bytes_opaque: "Uint32 (drop 12 (header_bytes m opc k e v t q c @ rest)) = q"
  by (simp add: header_bytes_def Uint32_Put)

lemma header_bytes_cas: "Uint64 (drop 16 (header_bytes m opc k e v t q c @ rest)) = c"
  by (simp add: header_bytes_def Uint64_Put)

subsection \<open>Decoding what was encoded\<close>

lemma unat_of_nat16: "n \<le> 65535 \<Longrightarrow> unat (of_nat n :: 16 word) = n"
  by (simp add: unat_of_nat)

lemma unat_of_nat8: "n \<le> 255 \<Longrightarrow> unat (of_nat n :: 8 word) = n"
  by (simp add: unat_of_nat)

lemma unat_of_nat32: "n < 4294967296 \<Longrightarrow> unat (of_nat n :: 32 word) = n"
  by (simp add: unat_of_nat)

lemmas header_bytes_fields =
  header_bytes_magic header_bytes_opcode header_bytes_klen header_bytes_elen
  header_bytes_vs header_bytes_status_low header_bytes_total header_bytes_opaque
  header_bytes_cas

lemmas header_bytes_fields0 = header_bytes_fields [where rest = "[]", simplified]

lemma server_grokHeader_header:
  assumes "lk \<le> 65535" and "le \<le> 255" and "lb \<le> unat mx"
  shows "server_grokHeader mx (header_bytes REQ_MAGIC opc (of_nat lk) (of_nat le) vb
            (of_nat lb + of_nat lk + of_nat le) q c) =
         (\<lparr> reqOpcode = opc, reqCas = c, reqOpaque = q, reqVBucket = vb,
            reqExtras = makeBytes le, reqKey = makeBytes lk, reqBody = makeBytes lb \<rparr>, None)"
proof -
  have lb: "unat (of_nat lb :: 32 word) = lb"
    using assms(3) by (rule le_unat_uoi)
  then have "\<not> mx < (of_nat lb :: 32 word)"
    using assms(3) by (simp add: word_less_nat_alt)
  then show ?thesis
    using assms(1,2) lb
    by (simp add: server_grokHeader_def header_bytes_fields0 Let_def unat_of_nat16
        unat_of_nat8 MCRequest_zero_def)
qed

lemma client_grokHeader_header:
  assumes "lk \<le> 65535" and "le \<le> 255" and "lb < 4294967296"
  shows "client_grokHeader (header_bytes RES_MAGIC opc (of_nat lk) (of_nat le) st
            (of_nat lb + of_nat lk + of_nat le) q c) =
         (\<lparr> resStatus = ucast (ucast st :: byte), resOpaque = 0, resCas = c,
            resExtras = makeBytes le, resKey = makeBytes lk, resBody = makeBytes lb,
            resFatal = False \<rparr>, None)"
  using assms
  by (simp add: client_grokHeader_def header_bytes_fields0 Let_def unat_of_nat16
      unat_of_nat8 unat_of_nat32 MCResponse_zero_def)

lemma ReadFull_exact: "length buf = length a \<Longrightarrow> ReadFull (a @ r) buf = ((a, length a, None), r)"
  by (simp add: ReadFull_def Let_def)

lemma server_readOb_exact:
  "length buf = length a \<Longrightarrow> server_readOb (a @ r) buf = ((a, None), r)"
  by (simp add: server_readOb_def ReadFull_exact)

lemma client_readOb_exact:
  "length buf = length a \<Longrightarrow> client_readOb (a @ r) buf = ((a, None), r)"
  by (simp add: client_readOb_def ReadFull_exact)

lemma server_readContents_exact:
  assumes "length (reqExtras rv) = length ex" "length (reqKey rv) = length k"
    "length (reqBody rv) = length b"
  shows "server_readContents (ex @ k @ b @ r) rv =
           ((rv \<lparr> reqExtras := ex, reqKey := k, reqBody := b \<rparr>, None), r)"
  using assms by (simp add: server_readContents_def server_readOb_exact Let_def)

lemma client_readContents_exact:
  assumes "length (resExtras rv) = length ex" "length (resKey rv) = length k"
    "length (resBody rv) = length b"
  shows "client_readContents (ex @ k @ b @ r) rv =
           ((rv \<lparr> resExtras := ex, resKey := k, resBody := b \<rparr>, None), r)"
  using assms by (simp add: client_readContents_def client_readOb_exact Let_def)

lemma ReadPacket_request_wire:
  assumes "length (reqExtras req) \<le> 255" and "length (reqKey req) \<le> 65535"
    and "length (reqBody req) \<le> unat mx"
  shows "ReadPacket mx (request_wire req @ rest) = ((req, None), rest)"
  using assms
  by (simp add: request_wire_def client_transmitRequest_reliable ReadPacket_def HDR_LEN_def
      ReadFull_exact server_grokHeader_header server_readContents_exact)

lemma request_wire_eq:
  "request_wire req =
     header_bytes REQ_MAGIC (reqOpcode req) (of_nat (length (reqKey req)))
            (of_nat (length (reqExtras req))) (reqVBucket req)
            (of_nat (length (reqBody req)) + of_nat (length (reqKey req))
               + of_nat (length (reqExtras req)))
            (reqOpaque req) (reqCas req)
        @ reqExtras req @ reqKey req @ reqBody req"
  by (simp add: request_wire_def client_transmitRequest_reliable)

lemma response_wire_eq:
  "response_wire req res =
     header_bytes RES_MAGIC (reqOpcode req) (of_nat (length (resKey res)))
            (of_nat (length (resExtras res))) (resStatus res)
            (of_nat (length (resBody res)) + of_nat (length (resKey res))
               + of_nat (length (resExtras res)))
            (reqOpaque req) (resCas res)
        @ resExtras res @ resKey res @ resBody res"
  by (simp add: response_wire_def server_transmitResponse_reliable)

lemma take4_PutUint32: "take 4 (PutUint32 v @ rest) = PutUint32 v"
  by simp

lemma header_bytes_opaque_bytes:
  "take 4 (drop 12 (header_bytes m opc k e v t q c @ rest)) = PutUint32 q"
  by (simp add: header_bytes_def)

lemma getResponse_header:
  "length (hdrBuf c) = 24 \<Longrightarrow> 24 \<le> length (conn c) \<Longrightarrow>
   getResponse c =
     (case client_grokHeader (take 24 (conn c)) of (rv, err) \<Rightarrow>
        if err \<noteq> None then ((rv, err), c \<lparr> conn := drop 24 (conn c), hdrBuf := take 24 (conn c) \<rparr>)
        else (case client_readContents (drop 24 (conn c)) rv of ((rv', err), s') \<Rightarrow>
               ((rv', err), c \<lparr> conn := s', hdrBuf := take 24 (conn c) \<rparr>)))"
  by (simp add: getResponse_def ReadFull_ok Let_def split: prod.splits)

lemma hexdigit_inj: "a < 16 \<Longrightarrow> b < 16 \<Longrightarrow> hexdigit a = hexdigit b \<Longrightarrow> a = b"
proof -
  assume a: "a < 16" and b: "b < 16" and e: "hexdigit a = hexdigit b"
  have d: "distinct ''0123456789abcdef''" by simp
  from a b have "a < length ''0123456789abcdef''" "b < length ''0123456789abcdef''" by simp_all
  with d e show "a = b"
    unfolding hexdigit_def by (simp only: nth_eq_iff_index_eq)
qed

lemma hex02_inj: "hex02 a = hex02 b \<Longrightarrow> a = b"
proof -
  assume e: "hex02 a = hex02 b"
  have la: "unat a < 256" and lb: "unat b < 256"
    using unsigned_less [of a] unsigned_less [of b] by simp_all
  then have dv: "unat a div 16 < 16" "unat b div 16 < 16"
    by simp_all
  have md: "unat a mod 16 < 16" "unat b mod 16 < 16"
    by simp_all
  from e have "hexdigit (unat a div 16) = hexdigit (unat b div 16)"
    and "hexdigit (unat a mod 16) = hexdigit (unat b mod 16)"
    by (simp_all add: hex02_def)
  then have "unat a div 16 = unat b div 16" "unat a mod 16 = unat b mod 16"
    using dv md by (simp_all only: hexdigit_inj)
  then have "unat a = unat b"
    by (metis div_mult_mod_eq)
  then show "a = b" by (rule unsigned_word_eqI)
qed

lemma body_len_exact:
  fixes t mx :: "32 word"
  assumes "klen \<le> 65535" "elen \<le> 255" "t - of_nat klen - of_nat elen \<le> mx"
    "unat mx + 65790 < 4294967296"
  shows "elen + klen + unat (t - of_nat klen - of_nat elen) = unat t"
proof -
  have k: "unat (of_nat klen :: 32 word) = klen" using assms(1) by (simp add: unat_of_nat)
  have e: "unat (of_nat elen :: 32 word) = elen" using assms(2) by (simp add: unat_of_nat)
  have "unat (t - of_nat klen - of_nat elen) \<le> unat mx"
    using assms(3) by (simp add: word_le_nat_alt)
  then show ?thesis
    using assms(1,2,4) k e
    by (auto simp add: unat_sub_if_size word_size split: if_splits)
qed

lemma body_len_mod:
  fixes t :: "32 word"
  shows "(unat (k :: 32 word) + unat (e :: 32 word) + unat (t - k - e)) mod 4294967296 = unat t"
proof -
  have "unat t = unat ((t - k - e) + e + k)" by simp
  also have "\<dots> = (unat (t - k - e) + unat e + unat k) mod 4294967296"
    by (simp only: unat_word_ariths) (simp add: mod_simps)
  finally show ?thesis by (simp add: ac_simps)
qed


lemma server_grokHeader_24:
  "length h = 24 \<Longrightarrow> h ! 0 = REQ_MAGIC \<Longrightarrow>
   server_grokHeader mx h =
     (let klen = unat (Uint16 (drop 2 h)); elen = unat (h ! 4);
          bodyLen = Uint32 (drop 8 h) - of_nat klen - of_nat elen;
          partial = MCRequest_zero \<lparr> reqOpcode := h ! 1, reqKey := makeBytes klen,
                      reqExtras := makeBytes elen, reqVBucket := Uint16 (drop 6 h) \<rparr>
      in if mx < bodyLen then (partial, Some (TooBig bodyLen mx))
         else (partial \<lparr> reqBody := makeBytes (unat bodyLen),
                 reqOpaque := Uint32 (drop 12 h), reqCas := Uint64 (drop 16 h) \<rparr>, None))"
  by (simp add: server_grokHeader_def Let_def)

lemma client_grokHeader_24:
  "length h = 24 \<Longrightarrow> h ! 0 = RES_MAGIC \<Longrightarrow>
   client_grokHeader h =
     (let klen = unat (Uint16 (drop 2 h)); elen = unat (h ! 4);
          bodyLen = Uint32 (drop 8 h) - of_nat klen - of_nat elen
      in (MCResponse_zero \<lparr> resKey := makeBytes klen, resExtras := makeBytes elen,
            resStatus := ucast (h ! 7), resBody := makeBytes (unat bodyLen),
            resCas := Uint64 (drop 16 h) \<rparr>, None))"
  by (simp add: client_grokHeader_def Let_def)

lemma ReadFull_length: "length (fst (fst (ReadFull r buf))) = length buf"
  by (simp add: ReadFull_def Let_def)

lemma server_readOb_length: "length (fst (fst (server_readOb r buf))) = length buf"
  using ReadFull_length [of r buf]
  by (auto simp add: server_readOb_def split: prod.splits)

lemma client_readOb_length: "length (fst (fst (client_readOb r buf))) = length buf"
  using ReadFull_length [of r buf]
  by (auto simp add: client_readOb_def split: prod.splits)

lemma server_readContents_lengths:
  "length (reqExtras (fst (fst (server_readContents s rv)))) = length (reqExtras rv)
   \<and> length (reqKey (fst (fst (server_readContents s rv)))) = length (reqKey rv)
   \<and> length (reqBody (fst (fst (server_readContents s rv)))) = length (reqBody rv)"
proof -
  obtain ex e1 s1 where a: "server_readOb s (reqExtras rv) = ((ex, e1), s1)"
    by (metis prod.exhaust)
  obtain k e2 s2 where b: "server_readOb s1 (reqKey rv) = ((k, e2), s2)"
    by (metis prod.exhaust)
  obtain bd e3 s3 where c: "server_readOb s2 (reqBody rv) = ((bd, e3), s3)"
    by (metis prod.exhaust)
  from a have la: "length ex = length (reqExtras rv)"
    using server_readOb_length [of s "reqExtras rv"] by simp
  from b have lb: "length k = length (reqKey rv)"
    using server_readOb_length [of s1 "reqKey rv"] by simp
  from c have lc: "length bd = length (reqBody rv)"
    using server_readOb_length [of s2 "reqBody rv"] by simp
  show ?thesis
    using a b c la lb lc by (simp add: server_readContents_def Let_def)
qed

lemma client_readContents_lengths:
  "length (resExtras (fst (fst (client_readContents s rv)))) = length (resExtras rv)
   \<and> length (resKey (fst (fst (client_readContents s rv)))) = length (resKey rv)
   \<and> length (resBody (fst (fst (client_readContents s rv)))) = length (resBody rv)"
proof -
  obtain ex e1 s1 where a: "client_readOb s (resExtras rv) = ((ex, e1), s1)"
    by (metis prod.exhaust)
  obtain k e2 s2 where b: "client_readOb s1 (resKey rv) = ((k, e2), s2)"
    by (metis prod.exhaust)
  obtain bd e3 s3 where c: "client_readOb s2 (resBody rv) = ((bd, e3), s3)"
    by (metis prod.exhaust)
  from a have la: "length ex = length (resExtras rv)"
    using client_readOb_length [of s "resExtras rv"] by simp
  from b have lb: "length k = length (resKey rv)"
    using client_readOb_length [of s1 "resKey rv"] by simp
  from c have lc: "length bd = length (resBody rv)"
    using client_readOb_length [of s2 "resBody rv"] by simp
  show ?thesis
    using a b c la lb lc by (simp add: client_readContents_def Let_def)
qed

lemma unat_word16_le: "unat (x :: 16 word) \<le> 65535"
proof -
  have "unat x < 2 ^ LENGTH(16)" by (rule unsigned_less)
  then show ?thesis by simp
qed

lemma unat_byte_le: "unat (b :: byte) \<le> 255"
proof -
  have "unat b < 2 ^ LENGTH(8)" by (rule unsigned_less)
  then show ?thesis by simp
qed

lemma unat_ucast16_32: "unat (ucast (x :: 16 word) :: 32 word) = unat x"
  using unat_word16_le [of x]
  by (simp add: unsigned_ucast_eq take_bit_nat_eq_self_iff)

lemma unat_ucast8_32: "unat (ucast (x :: byte) :: 32 word) = unat x"
  using unat_byte_le [of x]
  by (simp add: unsigned_ucast_eq take_bit_nat_eq_self_iff)

lemma server_grokHeader_sum:
  assumes "server_grokHeader mx h = (rv, None)" and "unat mx + 65790 < 4294967296"
  shows "length (reqExtras rv) + length (reqKey rv) + length (reqBody rv) = unat (Uint32 (drop 8 h))"
proof -
  from assms(1) have len: "24 \<le> length h" and magic: "h ! 0 = REQ_MAGIC"
    by (auto simp add: server_grokHeader_def Let_def split: if_splits)
  define klen where "klen = unat (Uint16 (drop 2 h))"
  define elen where "elen = unat (h ! 4)"
  define bodyLen where "bodyLen = Uint32 (drop 8 h) - of_nat klen - of_nat elen"
  from assms(1) len magic have le: "bodyLen \<le> mx"
    and rv: "length (reqExtras rv) = elen" "length (reqKey rv) = klen"
      "length (reqBody rv) = unat bodyLen"
    by (auto simp add: server_grokHeader_def Let_def klen_def elen_def bodyLen_def
        MCRequest_zero_def split: if_splits)
  have "elen + klen + unat bodyLen = unat (Uint32 (drop 8 h))"
    unfolding bodyLen_def
    by (rule body_len_exact)
      (use le assms(2) in \<open>simp_all add: klen_def elen_def unat_word16_le unat_byte_le bodyLen_def\<close>)
  with rv show ?thesis by simp
qed

lemma client_grokHeader_sum:
  assumes "client_grokHeader h = (rv, None)"
  shows "(length (resExtras rv) + length (resKey rv) + length (resBody rv)) mod 4294967296
           = unat (Uint32 (drop 8 h))"
proof -
  from assms(1) have len: "24 \<le> length h" and magic: "h ! 0 = RES_MAGIC"
    by (auto simp add: client_grokHeader_def Let_def split: if_splits)
  define k :: "32 word" where "k = of_nat (unat (Uint16 (drop 2 h)))"
  define e :: "32 word" where "e = of_nat (unat (h ! 4))"
  have uk: "unat k = unat (Uint16 (drop 2 h))"
    unfolding k_def by (simp add: unat_ucast16_32)
  have ue: "unat e = unat (h ! 4)"
    unfolding e_def by (simp add: unat_ucast8_32)
  from assms(1) len magic have rv: "length (resExtras rv) = unat e" "length (resKey rv) = unat k"
      "length (resBody rv) = unat (Uint32 (drop 8 h) - k - e)"
    by (auto simp add: client_grokHeader_def Let_def uk ue MCResponse_zero_def split: if_splits)
      (simp_all add: k_def e_def)
  show ?thesis
    using body_len_mod [of k e "Uint32 (drop 8 h)"] rv by (simp add: ac_simps)
qed


lemma request_wire_sample: "request_wire sample_request = sample_request_bytes"
  by (simp add: request_wire_eq sample_request_def sample_request_bytes_def header_bytes_def
      PutUint16_def PutUint32_def PutUint64_def REQ_MAGIC_def)

lemma response_wire_sample: "response_wire sample_request sample_response = sample_response_bytes"
  by (simp add: response_wire_eq sample_request_def sample_response_def
      sample_response_bytes_def header_bytes_def PutUint16_def PutUint32_def PutUint64_def
      RES_MAGIC_def)

lemma Uint32_drop_take: "n + 4 \<le> m \<Longrightarrow> Uint32 (drop n (take m r)) = Uint32 (drop n r)"
  by (simp add: Uint32_def drop_take)

lemma Uint16_drop_take: "n + 2 \<le> m \<Longrightarrow> Uint16 (drop n (take m r)) = Uint16 (drop n r)"
  by (simp add: Uint16_def drop_take)

lemma Uint64_drop_take: "n + 8 \<le> m \<Longrightarrow> Uint64 (drop n (take m r)) = Uint64 (drop n r)"
  by (simp add: Uint64_def drop_take)

lemma ReadPacket_sum:
  assumes "ReadPacket mx r = ((rv, None), r')" and "unat mx + 65790 < 4294967296"
  shows "length (reqExtras rv) + length (reqKey rv) + length (reqBody rv) = unat (Uint32 (drop 8 r))"
proof -
  have le: "24 \<le> length r"
    using assms(1) ReadFull_err [of r "makeBytes HDR_LEN"]
    by (auto simp add: ReadPacket_def HDR_LEN_def split: prod.splits if_splits)
  obtain hv e where gh: "server_grokHeader mx (take 24 r) = (hv, e)" by (metis prod.exhaust)
  with assms(1) le have e: "e = None" and rc: "server_readContents (drop 24 r) hv = ((rv, None), r')"
    by (auto simp add: ReadPacket_header split: if_splits)
  from rc have "length (reqExtras rv) = length (reqExtras hv)" "length (reqKey rv) = length (reqKey hv)"
    "length (reqBody rv) = length (reqBody hv)"
    using server_readContents_lengths [of "drop 24 r" hv] by simp_all
  moreover have "length (reqExtras hv) + length (reqKey hv) + length (reqBody hv)
      = unat (Uint32 (drop 8 (take 24 r)))"
    using gh e assms(2) by (simp add: server_grokHeader_sum)
  ultimately show ?thesis by (simp add: Uint32_drop_take)
qed

lemma getResponse_sum:
  assumes "getResponse c = ((rv, None), c')"
  shows "(length (resExtras rv) + length (resKey rv) + length (resBody rv)) mod 4294967296
           = unat (Uint32 (drop 8 (conn c)))"
proof -
  define n where "n = length (hdrBuf c)"
  have le: "n \<le> length (conn c)"
    using assms ReadFull_err [of "conn c" "hdrBuf c"]
    by (auto simp add: getResponse_def Let_def n_def split: prod.splits if_splits)
  then have rf: "ReadFull (conn c) (hdrBuf c) = ((take n (conn c), n, None), drop n (conn c))"
    by (simp add: ReadFull_ok n_def)
  obtain hv e where gh: "client_grokHeader (take n (conn c)) = (hv, e)" by (metis prod.exhaust)
  with assms rf have e: "e = None"
    by (auto simp add: getResponse_def Let_def split: if_splits)
  with gh have "24 \<le> length (take n (conn c))"
    using client_grokHeader_ok_len [of "take n (conn c)"] by simp
  then have n24: "24 \<le> n" by simp
  from assms rf gh e have "fst (fst (client_readContents (drop n (conn c)) hv)) = rv"
    by (auto simp add: getResponse_def Let_def split: prod.splits if_splits)
  then have "length (resExtras rv) = length (resExtras hv)" "length (resKey rv) = length (resKey hv)"
    "length (resBody rv) = length (resBody hv)"
    using client_readContents_lengths [of "drop n (conn c)" hv] by auto
  moreover have "(length (resExtras hv) + length (resKey hv) + length (resBody hv)) mod 4294967296
      = unat (Uint32 (drop 8 (take n (conn c))))"
    using gh e by (simp add: client_grokHeader_sum)
  ultimately show ?thesis using n24 by (simp add: Uint32_drop_take)
qed

lemma unat_sum32:
  "unat (of_nat a + of_nat b + of_nat c :: 32 word) = (c + b + a) mod 4294967296"
proof -
  have "(of_nat a + of_nat b + of_nat c :: 32 word) = of_nat (c + b + a)" by simp
  then show ?thesis by (simp only: unat_of_nat) simp
qed

lemma ucast_low_byte: "unat (st :: 16 word) \<le> 255 \<Longrightarrow> ucast (ucast st :: byte) = st"
proof -
  assume a: "unat st \<le> 255"
  then have "unat st < 2 ^ 8" by simp
  then have "take_bit 8 (unat st) = unat st" by (simp only: take_bit_nat_eq_self_iff)
  moreover have "unat st < 2 ^ 16" using a by simp
  then have "take_bit 16 (unat st) = unat st" by (simp only: take_bit_nat_eq_self_iff)
  ultimately have "unat (ucast (ucast st :: byte) :: 16 word) = unat st"
    by (simp add: unsigned_ucast_eq unsigned_take_bit_eq)
  then show ?thesis by (rule unsigned_word_eqI)
qed

lemma Uint16_high_zero: "6 + 2 \<le> length h \<Longrightarrow> h ! 6 = 0 \<Longrightarrow> Uint16 (drop 6 h) = ucast (h ! 7)"
  by (simp add: Uint16_def)

lemma client_grokHeader_ignores_opcode_opaque:
  assumes "length h = 24"
  shows "client_grokHeader (h[1 := opc, 12 := q0, 13 := q1, 14 := q2, 15 := q3]) = client_grokHeader h"
  using assms
  by (simp add: client_grokHeader_def Uint16_def Uint32_def Uint64_def Let_def)

lemma makeBytes_0 [simp]: "makeBytes 0 = []"
  by (simp add: makeBytes_def)

lemma getResponse_response_wire:
  assumes "length (resExtras res) \<le> 255" and "length (resKey res) \<le> 65535"
    and "length (resBody res) < 4294967296" and "length (hdrBuf c) = 24"
  shows "getResponse (c \<lparr> conn := response_wire rq res @ rest \<rparr>) =
     ((\<lparr> resStatus = ucast (ucast (resStatus res) :: byte), resOpaque = 0, resCas = resCas res,
         resExtras = resExtras res, resKey = resKey res, resBody = resBody res,
         resFatal = False \<rparr>, None),
      c \<lparr> conn := rest, hdrBuf := take 24 (response_wire rq res) \<rparr>)"
  using assms
  by (simp add: response_wire_eq getResponse_def ReadFull_exact client_grokHeader_header
      client_readContents_exact Let_def)

lemma server_grokHeader_request_wire:
  assumes "length (reqExtras req) \<le> 255" and "length (reqKey req) \<le> 65535"
    and "length (reqBody req) \<le> unat mx"
  shows "server_grokHeader mx (take 24 (request_wire req)) =
     (req \<lparr> reqExtras := makeBytes (length (reqExtras req)),
            reqKey := makeBytes (length (reqKey req)),
            reqBody := makeBytes (length (reqBody req)) \<rparr>, None)"
  using assms by (simp add: request_wire_eq server_grokHeader_header)

lemma client_grokHeader_response_wire:
  assumes "length (resExtras res) \<le> 255" and "length (resKey res) \<le> 65535"
    and "length (resBody res) < 4294967296"
  shows "client_grokHeader (take 24 (response_wire rq res)) =
     (\<lparr> resStatus = ucast (ucast (resStatus res) :: byte), resOpaque = 0, resCas = resCas res,
        resExtras = makeBytes (length (resExtras res)),
        resKey = makeBytes (length (resKey res)),
        resBody = makeBytes (length (resBody res)), resFatal = False \<rparr>, None)"
  using assms by (simp add: response_wire_eq client_grokHeader_header)

lemma getResponse_fst_cong:
  assumes "length (hdrBuf c) = length (hdrBuf c')" and "conn c = conn c'"
  shows "fst (getResponse c) = fst (getResponse c')"
proof (cases "length (hdrBuf c) \<le> length (conn c)")
  case True
  with assms show ?thesis
    by (simp add: getResponse_def ReadFull_ok Let_def split: prod.splits)
next
  case False
  with assms show ?thesis
    by (simp add: getResponse_def ReadFull_def Let_def split: prod.splits)
qed

lemma Stats_loop_error:
  "snd (fst (getResponse c)) = Some e \<Longrightarrow> Stats_loop c acc = ((acc, Some e), snd (getResponse c))"
  by (subst Stats_loop.simps) (simp add: Let_def)

lemma Stats_loop_sentinel:
  "snd (fst (getResponse c)) = None \<Longrightarrow> resKey (fst (fst (getResponse c))) = [] \<Longrightarrow>
   Stats_loop c acc = ((acc, None), snd (getResponse c))"
  by (subst Stats_loop.simps) (simp add: Let_def)

lemma Stats_loop_entry:
  "snd (fst (getResponse c)) = None \<Longrightarrow> resKey (fst (fst (getResponse c))) \<noteq> [] \<Longrightarrow>
   Stats_loop c acc =
     Stats_loop (snd (getResponse c))
       (acc @ [\<lparr> Key = resKey (fst (fst (getResponse c))), Val = resBody (fst (fst (getResponse c))) \<rparr>])"
  by (subst Stats_loop.simps) (simp add: Let_def)

lemma Stats_loop_packets:
  assumes "\<forall>r\<in>set rs. length (resExtras r) \<le> 255 \<and> length (resKey r) \<le> 65535
             \<and> length (resBody r) < 4294967296 \<and> resKey r \<noteq> []"
    and "length (hdrBuf c) = 24"
  shows "\<exists>hb. length hb = 24 \<and>
     Stats_loop (c \<lparr> conn := concat (map (response_wire rq) rs) @ tail \<rparr>) acc =
     Stats_loop (c \<lparr> conn := tail, hdrBuf := hb \<rparr>)
       (acc @ map (\<lambda>r. \<lparr> Key = resKey r, Val = resBody r \<rparr>) rs)"
  using assms
proof (induction rs arbitrary: c acc)
  case Nil
  then show ?case
    by (intro exI [of _ "hdrBuf c"]) simp
next
  case (Cons r rs)
  from Cons.prems have r: "length (resExtras r) \<le> 255" "length (resKey r) \<le> 65535"
    "length (resBody r) < 4294967296" "resKey r \<noteq> []"
    by simp_all
  let ?c0 = "c \<lparr> conn := response_wire rq r @ (concat (map (response_wire rq) rs) @ tail) \<rparr>"
  let ?c1 = "c \<lparr> hdrBuf := take 24 (response_wire rq r),
                 conn := concat (map (response_wire rq) rs) @ tail \<rparr>"
  have gr: "getResponse ?c0 =
     ((\<lparr> resStatus = ucast (ucast (resStatus r) :: byte), resOpaque = 0, resCas = resCas r,
         resExtras = resExtras r, resKey = resKey r, resBody = resBody r,
         resFatal = False \<rparr>, None), ?c1)"
    using getResponse_response_wire [OF r(1,2,3) Cons.prems(2)] by simp
  have step: "Stats_loop ?c0 acc = Stats_loop ?c1 (acc @ [\<lparr> Key = resKey r, Val = resBody r \<rparr>])"
    using r(4) by (simp add: Stats_loop_entry gr)
  have l1: "length (hdrBuf ?c1) = 24"
    by (simp add: response_wire_eq)
  from Cons.prems(1) have rest: "\<forall>r\<in>set rs. length (resExtras r) \<le> 255 \<and> length (resKey r) \<le> 65535
             \<and> length (resBody r) < 4294967296 \<and> resKey r \<noteq> []"
    by simp
  from Cons.IH [OF rest l1, of "acc @ [\<lparr> Key = resKey r, Val = resBody r \<rparr>]"]
  obtain hb where hb: "length hb = 24"
    and ih: "Stats_loop (?c1 \<lparr> conn := concat (map (response_wire rq) rs) @ tail \<rparr>)
               (acc @ [\<lparr> Key = resKey r, Val = resBody r \<rparr>]) =
             Stats_loop (?c1 \<lparr> conn := tail, hdrBuf := hb \<rparr>)
               ((acc @ [\<lparr> Key = resKey r, Val = resBody r \<rparr>])
                  @ map (\<lambda>r. \<lparr> Key = resKey r, Val = resBody r \<rparr>) rs)"
    by blast
  show ?case
    using hb step ih by (intro exI [of _ hb]) simp
qed


lemma Stats_loop_after_sentinel:
  assumes "length (resExtras z) \<le> 255" and "length (resBody z) < 4294967296"
    and "resKey z = []" and "length (hdrBuf c) = 24"
  shows "Stats_loop (c \<lparr> conn := response_wire rq z @ rest \<rparr>) acc =
           ((acc, None), c \<lparr> conn := rest, hdrBuf := take 24 (response_wire rq z) \<rparr>)"
proof -
  have "getResponse (c \<lparr> conn := response_wire rq z @ rest \<rparr>) =
     ((\<lparr> resStatus = ucast (ucast (resStatus z) :: byte), resOpaque = 0, resCas = resCas z,
         resExtras = resExtras z, resKey = resKey z, resBody = resBody z,
         resFatal = False \<rparr>, None),
      c \<lparr> conn := rest, hdrBuf := take 24 (response_wire rq z) \<rparr>)"
    using assms by (intro getResponse_response_wire) simp_all
  then show ?thesis
    using assms(3) by (simp add: Stats_loop_sentinel)
qed

lemma server_readOb_no_panic: "snd (fst (server_readOb s buf)) \<noteq> Some (Panic m)"
  by (auto simp add: server_readOb_def ReadFull_def Let_def)

lemma server_readContents_no_panic: "snd (fst (server_readContents s rv)) \<noteq> Some (Panic m)"
proof -
  obtain ex e1 s1 where a: "server_readOb s (reqExtras rv) = ((ex, e1), s1)"
    by (metis prod.exhaust)
  obtain k e2 s2 where b: "server_readOb s1 (reqKey rv) = ((k, e2), s2)"
    by (metis prod.exhaust)
  obtain bd e3 s3 where c: "server_readOb s2 (reqBody rv) = ((bd, e3), s3)"
    by (metis prod.exhaust)
  from a have a': "e1 \<noteq> Some (Panic m)"
    using server_readOb_no_panic [of s "reqExtras rv" m] by simp
  from b have b': "e2 \<noteq> Some (Panic m)"
    using server_readOb_no_panic [of s1 "reqKey rv" m] by simp
  from c have c': "e3 \<noteq> Some (Panic m)"
    using server_readOb_no_panic [of s2 "reqBody rv" m] by simp
  show ?thesis
    using a b c a' b' c' by (auto simp add: server_readContents_def Let_def)
qed

lemma ReadPacket_no_panic: "snd (fst (ReadPacket mx r)) \<noteq> Some (Panic m)"
proof (cases "24 \<le> length r")
  case True
  have "snd (server_grokHeader mx (take 24 r)) \<noteq> Some (Panic m)"
    using True by (simp add: server_grokHeader_def Let_def)
  then show ?thesis
    using True server_readContents_no_panic [of "drop 24 r" _ m]
    by (auto simp add: ReadPacket_header split: prod.splits)
next
  case False
  then show ?thesis
    by (simp add: ReadPacket_def ReadFull_def HDR_LEN_def Let_def)
qed

lemma handleMessage_ok:
  assumes "ReadPacket mx (inbound s) = ((req, None), rest)" and "handler (worker s) req = (res, h)"
    and "\<not> resFatal res"
  shows "handleMessage W handler mx s =
     ((True, snd (server_transmitResponse W (outbound s) req res)),
      s \<lparr> inbound := rest, worker := h,
          outbound := fst (server_transmitResponse W (outbound s) req res) \<rparr>)"
  using assms by (simp add: handleMessage_def Let_def split: prod.splits)

lemma handleMessage_fatal:
  assumes "ReadPacket mx (inbound s) = ((req, None), rest)" and "handler (worker s) req = (res, h)"
    and "resFatal res"
  shows "handleMessage W handler mx s = ((False, None), s \<lparr> inbound := rest, worker := h \<rparr>)"
  using assms by (simp add: handleMessage_def Let_def)

lemma handleMessage_decode_failure:
  assumes "ReadPacket mx (inbound s) = ((req, Some err), rest)"
  shows "handleMessage W handler mx s = ((False, None), s \<lparr> inbound := rest \<rparr>)"
proof -
  have "err \<noteq> Panic m" for m
    using assms ReadPacket_no_panic [of mx "inbound s" m] by auto
  then show ?thesis
    using assms by (cases err) (auto simp add: handleMessage_def)
qed

lemma HandleIO_loop_stop:
  "handleMessage W handler mx s = ((False, None), s1) \<Longrightarrow> HandleIO_loop W handler mx s = (None, s1)"
  by (subst HandleIO_loop.simps) (simp add: Let_def)

lemma HandleIO_loop_continue:
  "handleMessage W handler mx s = ((True, None), s1) \<Longrightarrow>
   HandleIO_loop W handler mx s = HandleIO_loop W handler mx s1"
  by (subst HandleIO_loop.simps) (simp add: Let_def)

lemma client_writeBytes_broken:
  "client_writeBytes (broken e) s data = (if data = [] then (s, None) else (s, Some e))"
  by (simp add: client_writeBytes_def broken_def)

lemma client_writeBytes_unflushable:
  "client_writeBytes (unflushable e) s data = (s, None)"
  by (simp add: client_writeBytes_def unflushable_def)

lemma server_writeBytes_broken:
  "discardError (server_writeBytes (broken (TransportError m)) s data) = (s, None)"
  by (simp add: server_writeBytes_def broken_def discardError_def)

lemma server_writeBytes_unflushable:
  "discardError (server_writeBytes (unflushable e) s data) = (s, None)"
  by (simp add: server_writeBytes_def unflushable_def)

lemma client_transmitRequest_broken:
  "client_transmitRequest (broken e) w req = (w, Some e)"
  by (simp add: client_transmitRequest_def client_writeByte_def client_writeBytes_broken
      makeBytes_def)

lemma client_transmitRequest_unflushable:
  "client_transmitRequest (unflushable e) w req = (w, None)"
  by (simp add: client_transmitRequest_def client_writeByte_def client_writeUint16_def
      client_writeUint32_def client_writeUint64_def client_writeBytes_unflushable)
    (simp add: unflushable_def)

lemma server_transmitResponse_broken:
  "server_transmitResponse (broken (TransportError m)) w rq res = (w, None)"
  by (simp add: server_transmitResponse_def server_writeByte_def server_writeUint16_def
      server_writeUint32_def server_writeUint64_def server_writeBytes_broken)
    (simp add: broken_def)

lemma server_transmitResponse_unflushable:
  "server_transmitResponse (unflushable e) w rq res = (w, None)"
  by (simp add: server_transmitResponse_def server_writeByte_def server_writeUint16_def
      server_writeUint32_def server_writeUint64_def server_writeBytes_unflushable)
    (simp add: unflushable_def)

lemma request_wire_second: "request_wire second_request = second_request_bytes"
  by (simp add: request_wire_eq second_request_def second_request_bytes_def header_bytes_def
      PutUint16_def PutUint32_def PutUint64_def REQ_MAGIC_def)

lemma request_wire_quit: "request_wire quit_request = quit_request_bytes"
  by (simp add: request_wire_eq quit_request_def quit_request_bytes_def header_bytes_def
      PutUint16_def PutUint32_def PutUint64_def REQ_MAGIC_def)

lemma response_wire_first_echo:
  "response_wire sample_request (fst (echo_handler n sample_request)) = first_echo_bytes"
  by (simp add: response_wire_eq echo_handler_def sample_request_def first_echo_bytes_def
      header_bytes_def MCResponse_zero_def PutUint16_def PutUint32_def PutUint64_def
      RES_MAGIC_def)

lemma response_wire_second_echo:
  "response_wire second_request (fst (echo_handler n second_request)) = second_echo_bytes"
  by (simp add: response_wire_eq echo_handler_def second_request_def second_echo_bytes_def
      header_bytes_def MCResponse_zero_def PutUint16_def PutUint32_def PutUint64_def
      RES_MAGIC_def)

lemma server_transmitResponse_reliable_wire:
  "server_transmitResponse reliable w rq rs = (w @ response_wire rq rs, None)"
  by (simp only: server_transmitResponse_reliable response_wire_eq)

lemma sample_opcodes: "reqOpcode sample_request \<noteq> 0x07" "reqOpcode second_request \<noteq> 0x07"
  by (simp_all add: sample_request_def second_request_def)

lemma ReadPacket_sample_bytes:
  "ReadPacket MaxBodyLen_default (sample_request_bytes @ rest) = ((sample_request, None), rest)"
  using ReadPacket_request_wire [of sample_request MaxBodyLen_default rest]
  by (simp add: request_wire_sample) (simp add: sample_request_def MaxBodyLen_default_def)

lemma ReadPacket_second_bytes:
  "ReadPacket MaxBodyLen_default (second_request_bytes @ rest) = ((second_request, None), rest)"
  using ReadPacket_request_wire [of second_request MaxBodyLen_default rest]
  by (simp add: request_wire_second) (simp add: second_request_def MaxBodyLen_default_def)

lemma ReadPacket_quit_bytes:
  "ReadPacket MaxBodyLen_default (quit_request_bytes @ rest) = ((quit_request, None), rest)"
  using ReadPacket_request_wire [of quit_request MaxBodyLen_default rest]
  by (simp add: request_wire_quit) (simp add: quit_request_def MaxBodyLen_default_def)

lemma ReadPacket_end_of_stream: "ReadPacket mx [] = ((MCRequest_zero, Some EOF), [])"
  by (simp add: ReadPacket_def ReadFull_def HDR_LEN_def Let_def)

lemma ReadPacket_wrong_magic:
  "ReadPacket mx ((0x13 # replicate 23 0) @ rest) = ((MCRequest_zero, Some (BadMagic 0x13)), rest)"
proof -
  have "ReadFull ((0x13 # replicate 23 0) @ rest) (makeBytes 24) =
      ((0x13 # replicate 23 0, 24, None), rest)"
    using ReadFull_exact [of "makeBytes 24" "0x13 # replicate 23 0" rest] by simp
  then show ?thesis
    by (simp add: ReadPacket_def HDR_LEN_def server_grokHeader_def REQ_MAGIC_def)
qed

lemma handleMessage_echo:
  assumes "ReadPacket mx inb = ((req, None), rest)" and "reqOpcode req \<noteq> 0x07"
    and "server_transmitResponse W out req (fst (echo_handler n req)) = (out', None)"
  shows "handleMessage W echo_handler mx
           \<lparr> inbound = inb, outbound = out, worker = n, closed = cl \<rparr> =
         ((True, None), \<lparr> inbound = rest, outbound = out', worker = Suc n, closed = cl \<rparr>)"
proof -
  have h: "echo_handler n req = (fst (echo_handler n req), Suc n)"
    by (simp add: echo_handler_def)
  have f: "\<not> resFatal (fst (echo_handler n req))"
    using assms(2) by (simp add: echo_handler_def)
  show ?thesis
    using handleMessage_ok [of mx "\<lparr> inbound = inb, outbound = out, worker = n, closed = cl \<rparr>"
        req rest echo_handler "fst (echo_handler n req)" "Suc n" W] assms(1,3) h f
    by simp
qed

lemma handleMessage_stream_end:
  "handleMessage W handler mx \<lparr> inbound = [], outbound = out, worker = n, closed = cl \<rparr> =
     ((False, None), \<lparr> inbound = [], outbound = out, worker = n, closed = cl \<rparr>)"
  using handleMessage_decode_failure [of mx "\<lparr> inbound = [], outbound = out, worker = n, closed = cl \<rparr>"
      MCRequest_zero EOF "[]" W handler]
  by (simp add: ReadPacket_end_of_stream)

lemma HandleIO_two_requests:
  assumes "\<And>out rq rs. server_transmitResponse W out rq rs = (put out rq rs, None)"
  shows "HandleIO W echo_handler MaxBodyLen_default
           \<lparr> inbound = sample_request_bytes @ second_request_bytes, outbound = out,
             worker = 0, closed = False \<rparr> =
         (None, \<lparr> inbound = [],
            outbound = put (put out sample_request (fst (echo_handler 0 sample_request)))
                         second_request (fst (echo_handler 1 second_request)),
            worker = 2, closed = True \<rparr>)"
proof -
  let ?o1 = "put out sample_request (fst (echo_handler 0 sample_request))"
  let ?o2 = "put ?o1 second_request (fst (echo_handler 1 second_request))"
  let ?t0 = "\<lparr> inbound = sample_request_bytes @ second_request_bytes, outbound = out,
        worker = 0, closed = False \<rparr>"
  let ?t1 = "\<lparr> inbound = second_request_bytes, outbound = ?o1, worker = Suc 0, closed = False \<rparr>"
  let ?t2 = "\<lparr> inbound = [], outbound = ?o2, worker = Suc (Suc 0), closed = False \<rparr>"
  have s1: "handleMessage W echo_handler MaxBodyLen_default ?t0 = ((True, None), ?t1)"
    using handleMessage_echo [of MaxBodyLen_default "sample_request_bytes @ second_request_bytes"
        sample_request second_request_bytes W out 0 ?o1 False]
    by (simp add: ReadPacket_sample_bytes assms sample_opcodes)
  have s2: "handleMessage W echo_handler MaxBodyLen_default ?t1 = ((True, None), ?t2)"
    using handleMessage_echo [of MaxBodyLen_default second_request_bytes second_request "[]" W
        ?o1 "Suc 0" ?o2 False] ReadPacket_second_bytes [of "[]"]
    by (simp add: assms sample_opcodes)
  have s3: "handleMessage W echo_handler MaxBodyLen_default ?t2 = ((False, None), ?t2)"
    by (rule handleMessage_stream_end)
  have "HandleIO_loop W echo_handler MaxBodyLen_default ?t0 =
      HandleIO_loop W echo_handler MaxBodyLen_default ?t1"
    using s1 by (rule HandleIO_loop_continue)
  also have "\<dots> = HandleIO_loop W echo_handler MaxBodyLen_default ?t2"
    using s2 by (rule HandleIO_loop_continue)
  also have "\<dots> = (None, ?t2)"
    using s3 by (rule HandleIO_loop_stop)
  finally show ?thesis
    by (simp add: HandleIO_def numeral_2_eq_2)
qed

section \<open>Claims\<close>

text \<open>
  C9. Opaque echo on the server: the response packet that \<open>transmitResponse\<close> writes for
  a request carries the request's opcode in byte 1 and the request's opaque, big-endian,
  in bytes 12-15, whatever the handler put in the response value.
\<close>

theorem transmitResponse_echoes_opaque_and_opcode:
  "server_transmitResponse reliable w req res = (w @ response_wire req res, None)
   \<and> response_wire req res ! 1 = reqOpcode req
   \<and> take 4 (drop 12 (response_wire req res)) = PutUint32 (reqOpaque req)
   \<and> Uint32 (drop 12 (response_wire req res)) = reqOpaque req
   \<and> response_wire req (res \<lparr> resOpaque := x \<rparr>) = response_wire req res"
proof -
  have a: "server_transmitResponse reliable w req res = (w @ response_wire req res, None)"
    by (simp only: server_transmitResponse_reliable response_wire_eq)
  have b: "response_wire req res ! 1 = reqOpcode req"
    by (simp only: response_wire_eq header_bytes_opcode)
  have c: "take 4 (drop 12 (response_wire req res)) = PutUint32 (reqOpaque req)"
    by (simp only: response_wire_eq header_bytes_opaque_bytes)
  have d: "Uint32 (drop 12 (response_wire req res)) = reqOpaque req"
    by (simp only: response_wire_eq header_bytes_opaque)
  have e: "response_wire req (res \<lparr> resOpaque := x \<rparr>) = response_wire req res"
    by (simp add: response_wire_eq)
  from a b c d e show ?thesis by blast
qed


text \<open>
  C10. The encoders do not enforce the section-length limits: for any request or response
  the transmit functions raise no error on a stream that accepts the bytes, write the key
  length modulo 65536 and the extras length modulo 256 into the header and still write
  every section byte after the 24 header bytes; so for a key above 65535 bytes or extras
  above 255 bytes the header lengths differ from the lengths of the sections written.
\<close>

theorem encoders_truncate_section_lengths:
  "client_transmitRequest reliable w req = (w @ request_wire req, None)
   \<and> server_transmitResponse reliable w rq res = (w @ response_wire rq res, None)
   \<and> unat (Uint16 (drop 2 (request_wire req))) = length (reqKey req) mod 65536
   \<and> unat (request_wire req ! 4) = length (reqExtras req) mod 256
   \<and> drop 24 (request_wire req) = reqExtras req @ reqKey req @ reqBody req
   \<and> unat (Uint16 (drop 2 (response_wire rq res))) = length (resKey res) mod 65536
   \<and> unat (response_wire rq res ! 4) = length (resExtras res) mod 256
   \<and> drop 24 (response_wire rq res) = resExtras res @ resKey res @ resBody res
   \<and> (65535 < length (reqKey req) \<longrightarrow>
        unat (Uint16 (drop 2 (request_wire req))) \<noteq> length (reqKey req))
   \<and> (255 < length (reqExtras req) \<longrightarrow>
        unat (request_wire req ! 4) \<noteq> length (reqExtras req))
   \<and> (65535 < length (resKey res) \<longrightarrow>
        unat (Uint16 (drop 2 (response_wire rq res))) \<noteq> length (resKey res))
   \<and> (255 < length (resExtras res) \<longrightarrow>
        unat (response_wire rq res ! 4) \<noteq> length (resExtras res))"
proof -
  have a: "client_transmitRequest reliable w req = (w @ request_wire req, None)"
    by (simp only: client_transmitRequest_reliable request_wire_eq)
  have b: "server_transmitResponse reliable w rq res = (w @ response_wire rq res, None)"
    by (simp only: server_transmitResponse_reliable response_wire_eq)
  have c: "unat (Uint16 (drop 2 (request_wire req))) = length (reqKey req) mod 65536"
    by (simp only: request_wire_eq header_bytes_klen) (simp add: unat_of_nat)
  have d: "unat (request_wire req ! 4) = length (reqExtras req) mod 256"
    by (simp only: request_wire_eq header_bytes_elen) (simp add: unat_of_nat)
  have e: "drop 24 (request_wire req) = reqExtras req @ reqKey req @ reqBody req"
    by (simp add: request_wire_eq)
  have f: "unat (Uint16 (drop 2 (response_wire rq res))) = length (resKey res) mod 65536"
    by (simp only: response_wire_eq header_bytes_klen) (simp add: unat_of_nat)
  have g: "unat (response_wire rq res ! 4) = length (resExtras res) mod 256"
    by (simp only: response_wire_eq header_bytes_elen) (simp add: unat_of_nat)
  have h: "drop 24 (response_wire rq res) = resExtras res @ resKey res @ resBody res"
    by (simp add: response_wire_eq)
  have m: "b < n \<Longrightarrow> n mod Suc b \<noteq> n" for n b :: nat
    by (metis less_Suc_eq mod_less_divisor not_less_iff_gr_or_eq zero_less_Suc)
  have i: "65535 < length (reqKey req) \<longrightarrow>
        unat (Uint16 (drop 2 (request_wire req))) \<noteq> length (reqKey req)"
    using m [of 65535 "length (reqKey req)"] by (simp add: c)
  have j: "255 < length (reqExtras req) \<longrightarrow>
        unat (request_wire req ! 4) \<noteq> length (reqExtras req)"
    using m [of 255 "length (reqExtras req)"] by (simp add: d)
  have k: "65535 < length (resKey res) \<longrightarrow>
        unat (Uint16 (drop 2 (response_wire rq res))) \<noteq> length (resKey res)"
    using m [of 65535 "length (resKey res)"] by (simp add: f)
  have l: "255 < length (resExtras res) \<longrightarrow>
        unat (response_wire rq res ! 4) \<noteq> length (resExtras res)"
    using m [of 255 "length (resExtras res)"] by (simp add: g)
  from a b c d e f g h i j k l show ?thesis by blast
qed

theorem encoders_truncate_section_lengths_witness:
  "65535 < length (reqKey (MCRequest_zero \<lparr> reqKey := replicate 65536 1, reqExtras := replicate 256 2 \<rparr>))
   \<and> 255 < length (reqExtras (MCRequest_zero \<lparr> reqKey := replicate 65536 1, reqExtras := replicate 256 2 \<rparr>))
   \<and> 65535 < length (resKey (MCResponse_zero \<lparr> resKey := replicate 65537 1, resExtras := replicate 257 2 \<rparr>))
   \<and> 255 < length (resExtras (MCResponse_zero \<lparr> resKey := replicate 65537 1, resExtras := replicate 257 2 \<rparr>))
   \<and> unat (Uint16 (drop 2 (request_wire (MCRequest_zero \<lparr> reqKey := replicate 65536 1, reqExtras := replicate 256 2 \<rparr>)))) = 0
   \<and> unat (request_wire (MCRequest_zero \<lparr> reqKey := replicate 65536 1, reqExtras := replicate 256 2 \<rparr>) ! 4) = 0
   \<and> unat (Uint16 (drop 2 (response_wire MCRequest_zero (MCResponse_zero \<lparr> resKey := replicate 65537 1, resExtras := replicate 257 2 \<rparr>)))) = 1
   \<and> unat (response_wire MCRequest_zero (MCResponse_zero \<lparr> resKey := replicate 65537 1, resExtras := replicate 257 2 \<rparr>) ! 4) = 1
   \<and> length (drop 24 (request_wire (MCRequest_zero \<lparr> reqKey := replicate 65536 1, reqExtras := replicate 256 2 \<rparr>))) = 65792"
  using encoders_truncate_section_lengths
    [of "[]" "MCRequest_zero \<lparr> reqKey := replicate 65536 1, reqExtras := replicate 256 2 \<rparr>"
        MCRequest_zero "MCResponse_zero \<lparr> resKey := replicate 65537 1, resExtras := replicate 257 2 \<rparr>"]
  by (simp add: MCRequest_zero_def MCResponse_zero_def)

text \<open>
  C6. Magic rejection. A 24-byte request header whose first byte is not 0x80 makes the
  server's \<open>grokHeader\<close> fail with \<open>BadMagic\<close> holding that byte, and \<open>ReadPacket\<close>
  returns that error with the stream positioned right after the header. A 24-byte response
  header whose first byte is not 0x81 makes the client's \<open>grokHeader\<close> fail with the
  error text "Bad magic: 0x" followed by the byte in two hexadecimal digits (which
  determine the byte), and \<open>getResponse\<close> returns it with the stream right after the
  header. Both results depend on no other byte of the header.
\<close>

theorem bad_magic_rejected:
  "(length h = 24 \<and> h ! 0 \<noteq> REQ_MAGIC \<longrightarrow>
      server_grokHeader mx h = (MCRequest_zero, Some (BadMagic (h ! 0)))
      \<and> ReadPacket mx (h @ rest) = ((MCRequest_zero, Some (BadMagic (h ! 0))), rest))
   \<and> (length h = 24 \<and> length (hdrBuf c) = 24 \<and> h ! 0 \<noteq> RES_MAGIC \<longrightarrow>
      client_grokHeader h = (MCResponse_zero, Some (ErrorString (''Bad magic: 0x'' @ hex02 (h ! 0))))
      \<and> getResponse (c \<lparr> conn := h @ rest \<rparr>) =
          ((MCResponse_zero, Some (ErrorString (''Bad magic: 0x'' @ hex02 (h ! 0)))),
           c \<lparr> conn := rest, hdrBuf := h \<rparr>))
   \<and> (hex02 (h ! 0) = hex02 b \<longrightarrow> b = h ! 0)"
proof -
  have a: "server_grokHeader mx h = (MCRequest_zero, Some (BadMagic (h ! 0)))"
    if "length h = 24" "h ! 0 \<noteq> REQ_MAGIC"
    using that by (simp add: server_grokHeader_def)
  have b: "ReadPacket mx (h @ rest) = ((MCRequest_zero, Some (BadMagic (h ! 0))), rest)"
    if "length h = 24" "h ! 0 \<noteq> REQ_MAGIC"
    using that a by (simp add: ReadPacket_header)
  have c: "client_grokHeader h = (MCResponse_zero, Some (ErrorString (''Bad magic: 0x'' @ hex02 (h ! 0))))"
    if "length h = 24" "h ! 0 \<noteq> RES_MAGIC"
    using that by (simp add: client_grokHeader_def)
  have d: "getResponse (c \<lparr> conn := h @ rest \<rparr>) =
          ((MCResponse_zero, Some (ErrorString (''Bad magic: 0x'' @ hex02 (h ! 0)))),
           c \<lparr> conn := rest, hdrBuf := h \<rparr>)"
    if "length h = 24" "length (hdrBuf c) = 24" "h ! 0 \<noteq> RES_MAGIC"
    using that c by (simp add: getResponse_header)
  have e: "hex02 (h ! 0) = hex02 b \<longrightarrow> b = h ! 0"
    using hex02_inj [of "h ! 0" b] by auto
  from a b c d e show ?thesis by blast
qed

theorem bad_magic_rejected_witness:
  "ReadPacket MaxBodyLen_default ((0x13 # replicate 23 0) @ [1, 2, 3]) =
     ((MCRequest_zero, Some (BadMagic 0x13)), [1, 2, 3])
   \<and> getResponse \<lparr> conn = (0x80 # replicate 23 0) @ [1, 2, 3], writer = (), hdrBuf = replicate 24 0 \<rparr> =
     ((MCResponse_zero, Some (ErrorString ''Bad magic: 0x80'')),
      \<lparr> conn = [1, 2, 3], writer = (), hdrBuf = 0x80 # replicate 23 0 \<rparr>)"
  using bad_magic_rejected [of "0x13 # replicate 23 0" MaxBodyLen_default "[1, 2, 3]"
      "\<lparr> conn = [], writer = (), hdrBuf = replicate 24 0 \<rparr>" "0x13"]
    bad_magic_rejected [of "0x80 # replicate 23 0" MaxBodyLen_default "[1, 2, 3]"
      "\<lparr> conn = [], writer = (), hdrBuf = replicate 24 0 \<rparr>" "0x80"]
  by (simp add: REQ_MAGIC_def RES_MAGIC_def hex02_def hexdigit_def)

text \<open>
  C4 (as amended). Oversized body. For a 24-byte request header with the right magic, the
  value length is the total body length minus the key and extras lengths, computed
  modulo 2^32. When it exceeds \<open>MaxBodyLen\<close>, the server's \<open>grokHeader\<close> fails with the
  too-big error: the key and extras buffers have been made by then and are returned with
  the error, the body buffer has not, and \<open>ReadPacket\<close> returns without reading beyond
  the header. When it is at most \<open>MaxBodyLen\<close> (in particular equal to it), the header is
  accepted with a body buffer of that length, and \<open>ReadPacket\<close> reads the three sections.
\<close>

theorem oversized_body_rejected_before_body_buffer:
  "length h = 24 \<and> h ! 0 = REQ_MAGIC \<longrightarrow>
   (let klen = unat (Uint16 (drop 2 h)); elen = unat (h ! 4);
        bodyLen = Uint32 (drop 8 h) - of_nat klen - of_nat elen;
        partial = MCRequest_zero \<lparr> reqOpcode := h ! 1, reqKey := makeBytes klen,
                    reqExtras := makeBytes elen, reqVBucket := Uint16 (drop 6 h) \<rparr>;
        whole = partial \<lparr> reqBody := makeBytes (unat bodyLen),
                  reqOpaque := Uint32 (drop 12 h), reqCas := Uint64 (drop 16 h) \<rparr>
    in (mx < bodyLen \<longrightarrow>
          server_grokHeader mx h = (partial, Some (TooBig bodyLen mx))
          \<and> reqBody partial = []
          \<and> length (reqKey partial) = klen \<and> length (reqExtras partial) = elen
          \<and> ReadPacket mx (h @ rest) = ((partial, Some (TooBig bodyLen mx)), rest))
       \<and> (bodyLen \<le> mx \<longrightarrow>
          server_grokHeader mx h = (whole, None) \<and> length (reqBody whole) = unat bodyLen)
       \<and> (bodyLen \<le> mx \<and> length ex = elen \<and> length k = klen \<and> length b = unat bodyLen \<longrightarrow>
          ReadPacket mx (h @ ex @ k @ b @ rest) =
            ((whole \<lparr> reqExtras := ex, reqKey := k, reqBody := b \<rparr>, None), rest)))"
proof (intro impI, elim conjE)
  assume len: "length h = 24" and magic: "h ! 0 = REQ_MAGIC"
  note gh = server_grokHeader_24 [OF len magic, of mx]
  have rp: "ReadPacket mx (h @ r) =
     (case server_grokHeader mx h of (rv, err) \<Rightarrow>
        if err \<noteq> None then ((rv, err), r) else server_readContents r rv)" for r
    using len by (simp add: ReadPacket_def HDR_LEN_def ReadFull_exact)
  show "let klen = unat (Uint16 (drop 2 h)); elen = unat (h ! 4);
        bodyLen = Uint32 (drop 8 h) - of_nat klen - of_nat elen;
        partial = MCRequest_zero \<lparr> reqOpcode := h ! 1, reqKey := makeBytes klen,
                    reqExtras := makeBytes elen, reqVBucket := Uint16 (drop 6 h) \<rparr>;
        whole = partial \<lparr> reqBody := makeBytes (unat bodyLen),
                  reqOpaque := Uint32 (drop 12 h), reqCas := Uint64 (drop 16 h) \<rparr>
    in (mx < bodyLen \<longrightarrow>
          server_grokHeader mx h = (partial, Some (TooBig bodyLen mx))
          \<and> reqBody partial = []
          \<and> length (reqKey partial) = klen \<and> length (reqExtras partial) = elen
          \<and> ReadPacket mx (h @ rest) = ((partial, Some (TooBig bodyLen mx)), rest))
       \<and> (bodyLen \<le> mx \<longrightarrow>
          server_grokHeader mx h = (whole, None) \<and> length (reqBody whole) = unat bodyLen)
       \<and> (bodyLen \<le> mx \<and> length ex = elen \<and> length k = klen \<and> length b = unat bodyLen \<longrightarrow>
          ReadPacket mx (h @ ex @ k @ b @ rest) =
            ((whole \<lparr> reqExtras := ex, reqKey := k, reqBody := b \<rparr>, None), rest))"
    unfolding Let_def
    by (intro conjI impI)
      (simp_all add: gh rp Let_def MCRequest_zero_def server_readContents_exact not_less [symmetric])
qed


theorem oversized_body_rejected_before_body_buffer_witness:
  "ReadPacket MaxBodyLen_default (oversized_header @ [9, 9]) =
     ((MCRequest_zero \<lparr> reqOpcode := 1, reqKey := makeBytes 3 \<rparr>,
       Some (TooBig 1000001 1000000)), [9, 9])
   \<and> ReadPacket MaxBodyLen_default (maximal_header @ [] @ [1, 2, 3] @ replicate 1000000 7 @ [9, 9]) =
     ((MCRequest_zero \<lparr> reqOpcode := 1, reqKey := [1, 2, 3], reqBody := replicate 1000000 7,
         reqOpaque := 42 \<rparr>, None), [9, 9])"
  using oversized_body_rejected_before_body_buffer
      [of oversized_header MaxBodyLen_default "[9, 9]" "[]" "[]" "[]"]
    oversized_body_rejected_before_body_buffer
      [of maximal_header MaxBodyLen_default "[9, 9]" "[]" "[1, 2, 3]" "replicate 1000000 7"]
  by (simp add: oversized_header_def maximal_header_def MaxBodyLen_default_def REQ_MAGIC_def
      Uint16_def Uint32_def Uint64_def Let_def MCRequest_zero_def makeBytes_def)

text \<open>The claim as first stated does not hold: when the too-big error is returned the
  3-byte key buffer exists, and a header whose total body length 1000003 exceeds the
  maximum is accepted, its value being 1000000 bytes.\<close>

theorem oversized_body_counterexample:
  "server_grokHeader MaxBodyLen_default oversized_header =
     (MCRequest_zero \<lparr> reqOpcode := 1, reqKey := [0, 0, 0] \<rparr>, Some (TooBig 1000001 1000000))
   \<and> snd (server_grokHeader MaxBodyLen_default maximal_header) = None
   \<and> Uint32 (drop 8 maximal_header) = 1000003
   \<and> MaxBodyLen_default = 1000000"
  by (simp add: server_grokHeader_def oversized_header_def maximal_header_def
      MaxBodyLen_default_def REQ_MAGIC_def Uint16_def Uint32_def Uint64_def Let_def
      MCRequest_zero_def makeBytes_def)
    (simp add: numeral_3_eq_3)

text \<open>
  C2 (as amended). The total body length. Both encoders write into bytes 8-11 the sum
  of the three section lengths modulo 2^32. Both decoders compute the value length as
  total minus key length minus extras length in \<open>uint32\<close> arithmetic, with no test for a
  negative result. On the server a wrapped result is at least 2^32 - 65790 and is
  refused as too big whenever \<open>MaxBodyLen\<close> is below that (the default 1000000 is), so
  every header \<open>grokHeader\<close> accepts and every packet \<open>ReadPacket\<close> returns satisfies
  extras + key + value = total exactly. On the client nothing is refused: every header
  \<open>grokHeader\<close> accepts and every response \<open>getResponse\<close> returns satisfies the
  equation modulo 2^32.
\<close>

theorem total_body_length_invariant:
  "unat (Uint32 (drop 8 (request_wire req))) =
     (length (reqExtras req) + length (reqKey req) + length (reqBody req)) mod 4294967296
   \<and> unat (Uint32 (drop 8 (response_wire rq res))) =
     (length (resExtras res) + length (resKey res) + length (resBody res)) mod 4294967296
   \<and> (unat mx + 65790 < 4294967296 \<and> server_grokHeader mx h = (rv, None) \<longrightarrow>
        length (reqExtras rv) + length (reqKey rv) + length (reqBody rv)
          = unat (Uint32 (drop 8 h)))
   \<and> (unat mx + 65790 < 4294967296 \<and> ReadPacket mx r = ((rv', None), r') \<longrightarrow>
        length (reqExtras rv') + length (reqKey rv') + length (reqBody rv')
          = unat (Uint32 (drop 8 r)))
   \<and> (client_grokHeader h' = (rs, None) \<longrightarrow>
        (length (resExtras rs) + length (resKey rs) + length (resBody rs)) mod 4294967296
          = unat (Uint32 (drop 8 h')))
   \<and> (getResponse c = ((rs', None), c') \<longrightarrow>
        (length (resExtras rs') + length (resKey rs') + length (resBody rs')) mod 4294967296
          = unat (Uint32 (drop 8 (conn c))))"
proof -
  have a: "unat (Uint32 (drop 8 (request_wire req))) =
     (length (reqExtras req) + length (reqKey req) + length (reqBody req)) mod 4294967296"
    by (simp only: request_wire_eq header_bytes_total unat_sum32)
  have b: "unat (Uint32 (drop 8 (response_wire rq res))) =
     (length (resExtras res) + length (resKey res) + length (resBody res)) mod 4294967296"
    by (simp only: response_wire_eq header_bytes_total unat_sum32)
  from a b show ?thesis
    using server_grokHeader_sum [of mx h rv] ReadPacket_sum [of mx r rv' r']
      client_grokHeader_sum [of h' rs] getResponse_sum [of c rs' c']
    by blast
qed

theorem total_body_length_invariant_witness:
  "length (reqExtras sample_request) + length (reqKey sample_request)
       + length (reqBody sample_request) = unat (Uint32 (drop 8 sample_request_bytes))
   \<and> (length (resExtras sample_response) + length (resKey sample_response)
       + length (resBody sample_response)) mod 4294967296
       = unat (Uint32 (drop 8 sample_response_bytes))
   \<and> ReadPacket MaxBodyLen_default sample_request_bytes = ((sample_request, None), [])
   \<and> fst (getResponse \<lparr> conn = sample_response_bytes, writer = (), hdrBuf = makeBytes HDR_LEN \<rparr>)
       = (sample_response, None)"
proof -
  have rp: "ReadPacket MaxBodyLen_default sample_request_bytes = ((sample_request, None), [])"
    by (simp add: ReadPacket_def ReadFull_def server_grokHeader_def server_readContents_def
        server_readOb_def sample_request_bytes_def sample_request_def HDR_LEN_def
        MaxBodyLen_default_def REQ_MAGIC_def Uint16_def Uint32_def Uint64_def Let_def
        MCRequest_zero_def makeBytes_def)
  have gh: "server_grokHeader MaxBodyLen_default (take 24 sample_request_bytes) =
      (sample_request \<lparr> reqKey := makeBytes 3 \<rparr>, None)"
    by (simp add: server_grokHeader_def sample_request_bytes_def sample_request_def
        MaxBodyLen_default_def REQ_MAGIC_def Uint16_def Uint32_def Uint64_def Let_def
        MCRequest_zero_def makeBytes_def)
  have gr: "getResponse \<lparr> conn = sample_response_bytes, writer = (), hdrBuf = makeBytes HDR_LEN \<rparr>
      = ((sample_response, None),
         \<lparr> conn = [], writer = (), hdrBuf = take 24 sample_response_bytes \<rparr>)"
    by (simp add: getResponse_def ReadFull_def client_grokHeader_def client_readContents_def
        client_readOb_def sample_response_bytes_def sample_response_def HDR_LEN_def
        RES_MAGIC_def Uint16_def Uint32_def Uint64_def Let_def
        MCResponse_zero_def makeBytes_def)
  have cg: "client_grokHeader (take 24 sample_response_bytes) =
      (sample_response \<lparr> resExtras := makeBytes 4, resBody := makeBytes 3 \<rparr>, None)"
    by (simp add: client_grokHeader_def sample_response_bytes_def sample_response_def
        RES_MAGIC_def Uint16_def Uint32_def Uint64_def Let_def
        MCResponse_zero_def makeBytes_def)
  have mx: "unat MaxBodyLen_default + 65790 < 4294967296"
    by (simp add: MaxBodyLen_default_def)
  show ?thesis
    using total_body_length_invariant [of sample_request sample_request sample_response
        MaxBodyLen_default "take 24 sample_request_bytes" "sample_request \<lparr> reqKey := makeBytes 3 \<rparr>"
        sample_request_bytes sample_request "[]" "take 24 sample_response_bytes"
        "sample_response \<lparr> resExtras := makeBytes 4, resBody := makeBytes 3 \<rparr>"
        "\<lparr> conn = sample_response_bytes, writer = (), hdrBuf = makeBytes HDR_LEN \<rparr>"
        sample_response "\<lparr> conn = [], writer = (), hdrBuf = take 24 sample_response_bytes \<rparr>"]
      rp gh gr cg mx
    by (simp add: sample_request_def sample_response_def sample_request_bytes_def
        sample_response_bytes_def)
qed

text \<open>The claim as first stated does not hold on the client: the header with key length
  1 and total body length 0 is accepted, with a value buffer of 2^32 - 1 bytes.\<close>

theorem total_body_length_counterexample:
  "snd (client_grokHeader underflow_header) = None
   \<and> length (resExtras (fst (client_grokHeader underflow_header))) = 0
   \<and> length (resKey (fst (client_grokHeader underflow_header))) = 1
   \<and> length (resBody (fst (client_grokHeader underflow_header))) = 4294967295
   \<and> unat (Uint32 (drop 8 underflow_header)) = 0"
  by (simp add: client_grokHeader_def underflow_header_def RES_MAGIC_def Uint16_def Uint32_def
      Let_def unsigned_minus_1_eq_mask mask_eq_exp_minus_1)

text \<open>
  C3 (as amended). The client's response header decoder. For a 24-byte header with magic
  0x81 \<open>grokHeader\<close> succeeds, and the decoded response carries the CAS of bytes 16-23, a
  key buffer of the length in bytes 2-3, an extras buffer of the length in byte 4 and a
  value buffer of the remaining length. When byte 6 is zero, its status is the big-endian
  value of bytes 6-7. The opcode and the opaque are not extracted: the opaque of the
  response stays zero, and the result is the same whatever bytes 1 and 12-15 hold.
\<close>

theorem client_grokHeader_extracts:
  "length h = 24 \<and> h ! 0 = RES_MAGIC \<longrightarrow>
     snd (client_grokHeader h) = None
     \<and> resCas (fst (client_grokHeader h)) = Uint64 (drop 16 h)
     \<and> length (resKey (fst (client_grokHeader h))) = unat (Uint16 (drop 2 h))
     \<and> length (resExtras (fst (client_grokHeader h))) = unat (h ! 4)
     \<and> length (resBody (fst (client_grokHeader h))) =
         unat (Uint32 (drop 8 h) - ucast (Uint16 (drop 2 h)) - ucast (h ! 4))
     \<and> (h ! 6 = 0 \<longrightarrow> resStatus (fst (client_grokHeader h)) = Uint16 (drop 6 h))
     \<and> resOpaque (fst (client_grokHeader h)) = 0
     \<and> client_grokHeader (h[1 := opc, 12 := q0, 13 := q1, 14 := q2, 15 := q3])
         = client_grokHeader h"
proof (intro impI, elim conjE)
  assume len: "length h = 24" and magic: "h ! 0 = RES_MAGIC"
  note gh = client_grokHeader_24 [OF len magic]
  have st: "h ! 6 = 0 \<longrightarrow> resStatus (fst (client_grokHeader h)) = Uint16 (drop 6 h)"
    using len by (simp add: gh Let_def Uint16_high_zero)
  have ig: "client_grokHeader (h[1 := opc, 12 := q0, 13 := q1, 14 := q2, 15 := q3])
         = client_grokHeader h"
    using len by (rule client_grokHeader_ignores_opcode_opaque)
  show "snd (client_grokHeader h) = None
     \<and> resCas (fst (client_grokHeader h)) = Uint64 (drop 16 h)
     \<and> length (resKey (fst (client_grokHeader h))) = unat (Uint16 (drop 2 h))
     \<and> length (resExtras (fst (client_grokHeader h))) = unat (h ! 4)
     \<and> length (resBody (fst (client_grokHeader h))) =
         unat (Uint32 (drop 8 h) - ucast (Uint16 (drop 2 h)) - ucast (h ! 4))
     \<and> (h ! 6 = 0 \<longrightarrow> resStatus (fst (client_grokHeader h)) = Uint16 (drop 6 h))
     \<and> resOpaque (fst (client_grokHeader h)) = 0
     \<and> client_grokHeader (h[1 := opc, 12 := q0, 13 := q1, 14 := q2, 15 := q3])
         = client_grokHeader h"
    using st ig by (simp add: gh Let_def MCResponse_zero_def)
qed

theorem client_grokHeader_extracts_witness:
  "client_grokHeader (take 24 sample_response_bytes) =
     (sample_response \<lparr> resExtras := makeBytes 4, resBody := makeBytes 3 \<rparr>, None)
   \<and> resCas (fst (client_grokHeader (take 24 sample_response_bytes))) = 5
   \<and> resStatus (fst (client_grokHeader (take 24 sample_response_bytes))) = 0
   \<and> client_grokHeader ((take 24 sample_response_bytes)[1 := 0x10, 12 := 1, 13 := 2, 14 := 3, 15 := 4])
       = client_grokHeader (take 24 sample_response_bytes)"
  using client_grokHeader_extracts [of "take 24 sample_response_bytes" "0x10" 1 2 3 4]
  by (simp add: sample_response_bytes_def sample_response_def RES_MAGIC_def
      client_grokHeader_def Uint16_def Uint32_def Uint64_def Let_def MCResponse_zero_def
      makeBytes_def)

text \<open>The claim as first stated does not hold: the header with opcode 0x10, status 0x0100
  and opaque 0xDEADBEEF decodes to the all-zero response.\<close>

theorem client_grokHeader_counterexample:
  "client_grokHeader tagged_response_header = (MCResponse_zero, None)
   \<and> tagged_response_header ! 1 = 0x10
   \<and> Uint16 (drop 6 tagged_response_header) = 0x0100
   \<and> Uint32 (drop 12 tagged_response_header) = 0xDEADBEEF
   \<and> resStatus MCResponse_zero = 0 \<and> resOpaque MCResponse_zero = 0"
  by (simp add: client_grokHeader_def tagged_response_header_def RES_MAGIC_def
      Uint16_def Uint32_def Uint64_def Let_def MCResponse_zero_def makeBytes_def)

text \<open>
  C1 (as amended). Round trip of the header codec. Requests: for every request with extras
  of at most 255 bytes, a key of at most 65535 bytes and a value of at most
  \<open>MaxBodyLen\<close> bytes, the server's \<open>grokHeader\<close> on the 24 header bytes the client's
  \<open>transmitRequest\<close> writes returns the request's opcode, vbucket, opaque and CAS with
  zeroed buffers of the three section lengths, and \<open>ReadPacket\<close> on the whole packet returns
  the request itself. Responses: for every response with extras of at most 255 bytes, a
  key of at most 65535 bytes, a value below 2^32 bytes and a status of at most 255, the
  client's \<open>grokHeader\<close> on the 24 header bytes the server's \<open>transmitResponse\<close> writes
  returns the status and the CAS with zeroed buffers of the three section lengths, and
  \<open>getResponse\<close> on the whole packet returns status, CAS, extras, key and value; the
  opcode and the opaque written from the request are not part of what the client decodes.
\<close>

theorem header_codec_roundtrip:
  "(length (reqExtras req) \<le> 255 \<and> length (reqKey req) \<le> 65535
      \<and> length (reqBody req) \<le> unat mx \<longrightarrow>
      server_grokHeader mx (take 24 (request_wire req)) =
        (req \<lparr> reqExtras := makeBytes (length (reqExtras req)),
               reqKey := makeBytes (length (reqKey req)),
               reqBody := makeBytes (length (reqBody req)) \<rparr>, None)
      \<and> ReadPacket mx (request_wire req @ rest) = ((req, None), rest))
   \<and> (length (resExtras res) \<le> 255 \<and> length (resKey res) \<le> 65535
      \<and> length (resBody res) < 4294967296 \<and> unat (resStatus res) \<le> 255
      \<and> length (hdrBuf c) = 24 \<longrightarrow>
      client_grokHeader (take 24 (response_wire rq res)) =
        (\<lparr> resStatus = resStatus res, resOpaque = 0, resCas = resCas res,
           resExtras = makeBytes (length (resExtras res)),
           resKey = makeBytes (length (resKey res)),
           resBody = makeBytes (length (resBody res)), resFatal = False \<rparr>, None)
      \<and> getResponse (c \<lparr> conn := response_wire rq res @ rest' \<rparr>) =
        ((\<lparr> resStatus = resStatus res, resOpaque = 0, resCas = resCas res,
            resExtras = resExtras res, resKey = resKey res, resBody = resBody res,
            resFatal = False \<rparr>, None),
         c \<lparr> conn := rest', hdrBuf := take 24 (response_wire rq res) \<rparr>))"
  using server_grokHeader_request_wire [of req mx] ReadPacket_request_wire [of req mx rest]
    client_grokHeader_response_wire [of res rq] getResponse_response_wire [of res c rq rest']
    ucast_low_byte [of "resStatus res"]
  by simp

theorem header_codec_roundtrip_witness:
  "ReadPacket MaxBodyLen_default (request_wire sample_request @ [1, 2]) =
     ((sample_request, None), [1, 2])
   \<and> getResponse \<lparr> conn = response_wire sample_request sample_response @ [3], writer = (),
        hdrBuf = makeBytes HDR_LEN \<rparr> =
     ((sample_response, None),
      \<lparr> conn = [3], writer = (), hdrBuf = take 24 (response_wire sample_request sample_response) \<rparr>)"
  using header_codec_roundtrip [of sample_request MaxBodyLen_default "[1, 2]" sample_response
      "\<lparr> conn = [], writer = (), hdrBuf = makeBytes HDR_LEN \<rparr>" sample_request "[3]"]
  by (simp add: sample_request_def sample_response_def MaxBodyLen_default_def HDR_LEN_def)

text \<open>The claim as first stated does not hold: a request with a value of 1000001 bytes
  is encoded and then refused by the decoder under the default maximum, and the response
  header written for a request with opaque 42 decodes to a response with opaque 0, the
  same as for a request with another opcode and opaque.\<close>

theorem header_codec_roundtrip_counterexample:
  "server_grokHeader MaxBodyLen_default
      (take 24 (request_wire (sample_request \<lparr> reqBody := replicate 1000001 0 \<rparr>))) =
     (sample_request \<lparr> reqOpaque := 0, reqKey := makeBytes 3 \<rparr>, Some (TooBig 1000001 1000000))
   \<and> reqOpaque sample_request = 42
   \<and> resOpaque (fst (client_grokHeader (take 24 (response_wire sample_request sample_response)))) = 0
   \<and> client_grokHeader (take 24 (response_wire (sample_request \<lparr> reqOpcode := 0x10, reqOpaque := 918494 \<rparr>) sample_response))
       = client_grokHeader (take 24 (response_wire sample_request sample_response))"
proof -
  have a: "server_grokHeader MaxBodyLen_default
      (take 24 (request_wire (sample_request \<lparr> reqBody := replicate 1000001 0 \<rparr>))) =
     (sample_request \<lparr> reqOpaque := 0, reqKey := makeBytes 3 \<rparr>, Some (TooBig 1000001 1000000))"
    by (simp add: request_wire_eq server_grokHeader_24 header_bytes_fields0 sample_request_def
        MaxBodyLen_default_def MCRequest_zero_def Let_def)
  have b: "reqOpaque sample_request = 42"
    by (simp add: sample_request_def)
  have le: "length (resExtras sample_response) \<le> 255" "length (resKey sample_response) \<le> 65535"
    "length (resBody sample_response) < 4294967296"
    by (simp_all add: sample_response_def)
  note c = client_grokHeader_response_wire [OF le]
  show ?thesis
    by (simp add: a b c)
qed

text \<open>
  C7. The client's \<open>Stats\<close>. When, after the request has been written, the stream yields
  the packets of N well-formed responses with non-empty keys followed by the packet of a
  response with an empty key, \<open>Stats\<close> returns the N (key, value) entries in the order of
  arrival and no error, without the sentinel, and leaves the stream exactly after the
  sentinel's packet. When instead the read that follows the N packets fails with an
  error, \<open>Stats\<close> returns the N entries accumulated so far together with that error.
\<close>

theorem Stats_accumulates_until_sentinel:
  "(\<forall>r\<in>set rs. length (resExtras r) \<le> 255 \<and> length (resKey r) \<le> 65535
       \<and> length (resBody r) < 4294967296 \<and> resKey r \<noteq> [])
   \<and> length (hdrBuf c) = 24 \<longrightarrow>
   (length (resExtras z) \<le> 255 \<and> length (resBody z) < 4294967296 \<and> resKey z = [] \<longrightarrow>
      Stats reliable STAT
        (c \<lparr> conn := concat (map (response_wire rq) rs) @ response_wire rq z @ rest \<rparr>) key =
        ((map (\<lambda>r. \<lparr> Key = resKey r, Val = resBody r \<rparr>) rs, None),
         c \<lparr> conn := rest,
             writer := writer c @ request_wire (MCRequest_zero \<lparr> reqOpcode := STAT,
                         reqVBucket := 0, reqCas := 0, reqOpaque := 918494, reqKey := key,
                         reqExtras := [], reqBody := [] \<rparr>),
             hdrBuf := take 24 (response_wire rq z) \<rparr>))
   \<and> (snd (fst (getResponse (c \<lparr> conn := bad \<rparr>))) = Some e \<longrightarrow>
      fst (Stats reliable STAT (c \<lparr> conn := concat (map (response_wire rq) rs) @ bad \<rparr>) key) =
        (map (\<lambda>r. \<lparr> Key = resKey r, Val = resBody r \<rparr>) rs, Some e))"
proof (intro impI, elim conjE)
  assume rs: "\<forall>r\<in>set rs. length (resExtras r) \<le> 255 \<and> length (resKey r) \<le> 65535
       \<and> length (resBody r) < 4294967296 \<and> resKey r \<noteq> []"
    and hb: "length (hdrBuf c) = 24"
  obtain cn w hbuf where c: "c = \<lparr> conn = cn, writer = w, hdrBuf = hbuf \<rparr>"
    by (cases c) auto
  let ?req = "MCRequest_zero \<lparr> reqOpcode := STAT, reqVBucket := 0, reqCas := 0,
                reqOpaque := 918494, reqKey := key, reqExtras := [], reqBody := [] \<rparr>"
  let ?stats = "map (\<lambda>r. \<lparr> Key = resKey r, Val = resBody r \<rparr>) rs"
  have start: "Stats reliable STAT c0 key = Stats_loop (c0 \<lparr> writer := writer c0 @ request_wire ?req \<rparr>) []"
    for c0 :: "(byte list) Client"
    by (simp add: Stats_def Let_def client_transmitRequest_reliable request_wire_eq)
  have a: "Stats reliable STAT
        (c \<lparr> conn := concat (map (response_wire rq) rs) @ response_wire rq z @ rest \<rparr>) key =
        ((?stats, None),
         c \<lparr> conn := rest, writer := writer c @ request_wire ?req,
             hdrBuf := take 24 (response_wire rq z) \<rparr>)"
    if z: "length (resExtras z) \<le> 255 \<and> length (resBody z) < 4294967296 \<and> resKey z = []"
  proof -
    let ?c = "c \<lparr> writer := writer c @ request_wire ?req \<rparr>"
    from hb have hb': "length (hdrBuf ?c) = 24" by simp
    from Stats_loop_packets [OF rs hb', of rq "response_wire rq z @ rest" "[]"]
    obtain h1 where h1: "length h1 = 24"
      and run: "Stats_loop (?c \<lparr> conn := concat (map (response_wire rq) rs) @ response_wire rq z @ rest \<rparr>) [] =
                Stats_loop (?c \<lparr> conn := response_wire rq z @ rest, hdrBuf := h1 \<rparr>) ([] @ ?stats)"
      by blast
    have fin: "Stats_loop ((?c \<lparr> hdrBuf := h1 \<rparr>) \<lparr> conn := response_wire rq z @ rest \<rparr>) ?stats =
        ((?stats, None), (?c \<lparr> hdrBuf := h1 \<rparr>) \<lparr> conn := rest, hdrBuf := take 24 (response_wire rq z) \<rparr>)"
      using z h1 by (intro Stats_loop_after_sentinel) simp_all
    show ?thesis
      using run fin by (simp add: start c)
  qed
  have b: "fst (Stats reliable STAT (c \<lparr> conn := concat (map (response_wire rq) rs) @ bad \<rparr>) key) =
        (?stats, Some e)"
    if bad: "snd (fst (getResponse (c \<lparr> conn := bad \<rparr>))) = Some e"
  proof -
    let ?c = "c \<lparr> writer := writer c @ request_wire ?req \<rparr>"
    from hb have hb': "length (hdrBuf ?c) = 24" by simp
    from Stats_loop_packets [OF rs hb', of rq bad "[]"]
    obtain h1 where h1: "length h1 = 24"
      and run: "Stats_loop (?c \<lparr> conn := concat (map (response_wire rq) rs) @ bad \<rparr>) [] =
                Stats_loop (?c \<lparr> conn := bad, hdrBuf := h1 \<rparr>) ([] @ ?stats)"
      by blast
    have "fst (getResponse (?c \<lparr> conn := bad, hdrBuf := h1 \<rparr>)) = fst (getResponse (c \<lparr> conn := bad \<rparr>))"
      using h1 hb by (intro getResponse_fst_cong) simp_all
    with bad have "snd (fst (getResponse (?c \<lparr> conn := bad, hdrBuf := h1 \<rparr>))) = Some e"
      by simp
    then have "Stats_loop (?c \<lparr> conn := bad, hdrBuf := h1 \<rparr>) ?stats =
        ((?stats, Some e), snd (getResponse (?c \<lparr> conn := bad, hdrBuf := h1 \<rparr>)))"
      by (rule Stats_loop_error)
    with run show ?thesis
      by (simp add: start c)
  qed
  from a b show "(length (resExtras z) \<le> 255 \<and> length (resBody z) < 4294967296 \<and> resKey z = [] \<longrightarrow>
      Stats reliable STAT
        (c \<lparr> conn := concat (map (response_wire rq) rs) @ response_wire rq z @ rest \<rparr>) key =
        ((?stats, None),
         c \<lparr> conn := rest, writer := writer c @ request_wire ?req,
             hdrBuf := take 24 (response_wire rq z) \<rparr>))
   \<and> (snd (fst (getResponse (c \<lparr> conn := bad \<rparr>))) = Some e \<longrightarrow>
      fst (Stats reliable STAT (c \<lparr> conn := concat (map (response_wire rq) rs) @ bad \<rparr>) key) =
        (?stats, Some e))"
    by blast
qed

theorem Stats_accumulates_until_sentinel_witness:
  "fst (Stats reliable 0x10
      \<lparr> conn = response_wire sample_request stat_pid @ response_wire sample_request stat_up
                 @ response_wire sample_request MCResponse_zero @ [0x81, 0x10],
        writer = [], hdrBuf = makeBytes HDR_LEN \<rparr> []) =
     ([\<lparr> Key = [0x70, 0x69, 0x64], Val = [0x34, 0x32] \<rparr>, \<lparr> Key = [0x75, 0x70], Val = [0x37] \<rparr>], None)
   \<and> conn (snd (Stats reliable 0x10
      \<lparr> conn = response_wire sample_request stat_pid @ response_wire sample_request stat_up
                 @ response_wire sample_request MCResponse_zero @ [0x81, 0x10],
        writer = [], hdrBuf = makeBytes HDR_LEN \<rparr> [])) = [0x81, 0x10]
   \<and> fst (Stats reliable 0x10
      \<lparr> conn = response_wire sample_request stat_pid @ response_wire sample_request stat_up
                 @ [0x81, 0x10],
        writer = [], hdrBuf = makeBytes HDR_LEN \<rparr> []) =
     ([\<lparr> Key = [0x70, 0x69, 0x64], Val = [0x34, 0x32] \<rparr>, \<lparr> Key = [0x75, 0x70], Val = [0x37] \<rparr>],
      Some ErrUnexpectedEOF)"
proof -
  have bad: "snd (fst (getResponse \<lparr> conn = [0x81, 0x10], writer = [], hdrBuf = makeBytes HDR_LEN \<rparr>))
      = Some ErrUnexpectedEOF"
    by (simp add: getResponse_def ReadFull_def HDR_LEN_def Let_def)
  have ok: "(\<forall>r\<in>set [stat_pid, stat_up]. length (resExtras r) \<le> 255 \<and> length (resKey r) \<le> 65535
       \<and> length (resBody r) < 4294967296 \<and> resKey r \<noteq> [])
     \<and> length (hdrBuf \<lparr> conn = [], writer = ([] :: byte list), hdrBuf = makeBytes HDR_LEN \<rparr>) = 24"
    by (simp add: stat_pid_def stat_up_def HDR_LEN_def)
  have z: "length (resExtras MCResponse_zero) \<le> 255 \<and> length (resBody MCResponse_zero) < 4294967296
     \<and> resKey MCResponse_zero = []"
    by (simp add: MCResponse_zero_def)
  note t = Stats_accumulates_until_sentinel [of "[stat_pid, stat_up]"
        "\<lparr> conn = [], writer = [], hdrBuf = makeBytes HDR_LEN \<rparr>" MCResponse_zero "0x10"
        sample_request "[0x81, 0x10]" "[]" "[0x81, 0x10]" ErrUnexpectedEOF, rule_format, OF ok]
  from t [THEN conjunct1, rule_format, OF z] t [THEN conjunct2, rule_format] bad
  show ?thesis
    by (simp add: stat_pid_def stat_up_def)
qed

text \<open>
  C5. Propagation of write errors, evaluated on writers that fail. On a writer whose every
  operation fails with \<open>e\<close>, \<open>transmitRequest\<close> returns \<open>e\<close> and \<open>Send\<close> passes it to
  its caller, but \<open>Transmit\<close> returns to its caller with no trace of it. On a writer that
  accepts the bytes and fails on \<open>Flush\<close>, \<open>transmitRequest\<close> returns nil. On either
  writer the server's \<open>transmitResponse\<close> returns normally with nothing written, and
  \<open>handleMessage\<close> returns true, so the dispatch loop goes on to read the next packet.
\<close>

theorem write_errors_are_dropped:
  "client_transmitRequest (broken e) w req = (w, Some e)
   \<and> fst (Send (broken e) c req) = (MCResponse_zero, Some e)
   \<and> Transmit (broken e) c req = c
   \<and> client_transmitRequest (unflushable e) w req = (w, None)
   \<and> server_transmitResponse (broken (TransportError m)) w rq res = (w, None)
   \<and> server_transmitResponse (unflushable e) w rq res = (w, None)
   \<and> handleMessage (broken (TransportError ''broken pipe'')) echo_handler MaxBodyLen_default
        \<lparr> inbound = request_wire sample_request @ request_wire second_request,
          outbound = [], worker = 0, closed = False \<rparr> =
       ((True, None),
        \<lparr> inbound = request_wire second_request, outbound = [], worker = 1, closed = False \<rparr>)"
proof -
  have a: "fst (Send (broken e) c req) = (MCResponse_zero, Some e)"
    by (simp add: Send_def client_transmitRequest_broken Let_def)
  have b: "Transmit (broken e) c req = c"
    by (simp add: Transmit_def client_transmitRequest_broken)
  have r: "ReadPacket MaxBodyLen_default (request_wire sample_request @ request_wire second_request)
      = ((sample_request, None), request_wire second_request)"
    by (simp add: ReadPacket_request_wire sample_request_def MaxBodyLen_default_def)
  have h0: "echo_handler 0 sample_request = (fst (echo_handler 0 sample_request), 1)"
    by (simp add: echo_handler_def)
  have f0: "\<not> resFatal (fst (echo_handler 0 sample_request))"
    by (simp add: echo_handler_def sample_request_def)
  have h: "handleMessage (broken (TransportError ''broken pipe'')) echo_handler MaxBodyLen_default
        \<lparr> inbound = request_wire sample_request @ request_wire second_request,
          outbound = [], worker = 0, closed = False \<rparr> =
       ((True, None),
        \<lparr> inbound = request_wire second_request, outbound = [], worker = 1, closed = False \<rparr>)"
    using handleMessage_ok [of MaxBodyLen_default
        "\<lparr> inbound = request_wire sample_request @ request_wire second_request,
          outbound = [], worker = 0, closed = False \<rparr>"
        sample_request "request_wire second_request" echo_handler
        "fst (echo_handler 0 sample_request)" 1 "broken (TransportError ''broken pipe'')"]
      r h0 f0
    by (simp add: server_transmitResponse_broken)
  from a b h show ?thesis
    by (simp add: client_transmitRequest_broken client_transmitRequest_unflushable
        server_transmitResponse_broken server_transmitResponse_unflushable)
qed

text \<open>
  C8. Dispatcher sequencing, evaluated on two queued requests. On a stream that accepts the
  writes, the first call of \<open>handleMessage\<close> leaves the 27 bytes of the first response on
  the wire and the second request unread, and \<open>HandleIO\<close> ends with both responses
  written in order; a fatal answer and a header with a wrong magic close the connection
  with nothing written and the second request unread. On a writer whose operations fail,
  and on one whose \<open>Flush\<close> fails, \<open>handleMessage\<close> still returns true after the first
  request with no byte of its response written, and \<open>HandleIO\<close> goes on to read and
  hand over the second request (the handler has seen two requests at the end) with
  nothing written at all.
\<close>

theorem second_packet_read_with_no_response_written:
  "handleMessage (broken (TransportError ''broken pipe'')) echo_handler MaxBodyLen_default
      \<lparr> inbound = sample_request_bytes @ second_request_bytes, outbound = [],
        worker = 0, closed = False \<rparr> =
     ((True, None),
      \<lparr> inbound = second_request_bytes, outbound = [], worker = 1, closed = False \<rparr>)
   \<and> HandleIO (broken (TransportError ''broken pipe'')) echo_handler MaxBodyLen_default
      \<lparr> inbound = sample_request_bytes @ second_request_bytes, outbound = [],
        worker = 0, closed = False \<rparr> =
     (None, \<lparr> inbound = [], outbound = [], worker = 2, closed = True \<rparr>)
   \<and> HandleIO (unflushable (TransportError ''broken pipe'')) echo_handler MaxBodyLen_default
      \<lparr> inbound = sample_request_bytes @ second_request_bytes, outbound = [],
        worker = 0, closed = False \<rparr> =
     (None, \<lparr> inbound = [], outbound = [], worker = 2, closed = True \<rparr>)
   \<and> handleMessage reliable echo_handler MaxBodyLen_default
      \<lparr> inbound = sample_request_bytes @ second_request_bytes, outbound = [],
        worker = 0, closed = False \<rparr> =
     ((True, None),
      \<lparr> inbound = second_request_bytes, outbound = first_echo_bytes, worker = 1,
        closed = False \<rparr>)
   \<and> HandleIO reliable echo_handler MaxBodyLen_default
      \<lparr> inbound = sample_request_bytes @ second_request_bytes, outbound = [],
        worker = 0, closed = False \<rparr> =
     (None, \<lparr> inbound = [], outbound = first_echo_bytes @ second_echo_bytes, worker = 2,
        closed = True \<rparr>)
   \<and> HandleIO reliable echo_handler MaxBodyLen_default
      \<lparr> inbound = quit_request_bytes @ second_request_bytes, outbound = [],
        worker = 0, closed = False \<rparr> =
     (None, \<lparr> inbound = second_request_bytes, outbound = [], worker = 1, closed = True \<rparr>)
   \<and> HandleIO reliable echo_handler MaxBodyLen_default
      \<lparr> inbound = (0x13 # replicate 23 0) @ second_request_bytes, outbound = [],
        worker = 0, closed = False \<rparr> =
     (None, \<lparr> inbound = second_request_bytes, outbound = [], worker = 0, closed = True \<rparr>)"
proof -
  let ?e = "TransportError ''broken pipe''"
  have a: "handleMessage (broken ?e) echo_handler MaxBodyLen_default
      \<lparr> inbound = sample_request_bytes @ second_request_bytes, outbound = [],
        worker = 0, closed = False \<rparr> =
     ((True, None),
      \<lparr> inbound = second_request_bytes, outbound = [], worker = 1, closed = False \<rparr>)"
    using handleMessage_echo [of MaxBodyLen_default "sample_request_bytes @ second_request_bytes"
        sample_request second_request_bytes "broken ?e" "[]" 0 "[]" False]
    by (simp add: ReadPacket_sample_bytes server_transmitResponse_broken sample_opcodes)
  have b: "HandleIO (broken ?e) echo_handler MaxBodyLen_default
      \<lparr> inbound = sample_request_bytes @ second_request_bytes, outbound = [],
        worker = 0, closed = False \<rparr> =
     (None, \<lparr> inbound = [], outbound = [], worker = 2, closed = True \<rparr>)"
    using HandleIO_two_requests [of "broken ?e" "\<lambda>out rq rs. out" "[]"]
    by (simp add: server_transmitResponse_broken)
  have c: "HandleIO (unflushable ?e) echo_handler MaxBodyLen_default
      \<lparr> inbound = sample_request_bytes @ second_request_bytes, outbound = [],
        worker = 0, closed = False \<rparr> =
     (None, \<lparr> inbound = [], outbound = [], worker = 2, closed = True \<rparr>)"
    using HandleIO_two_requests [of "unflushable ?e" "\<lambda>out rq rs. out" "[]"]
    by (simp add: server_transmitResponse_unflushable)
  have d: "handleMessage reliable echo_handler MaxBodyLen_default
      \<lparr> inbound = sample_request_bytes @ second_request_bytes, outbound = [],
        worker = 0, closed = False \<rparr> =
     ((True, None),
      \<lparr> inbound = second_request_bytes, outbound = first_echo_bytes, worker = 1,
        closed = False \<rparr>)"
    using handleMessage_echo [of MaxBodyLen_default "sample_request_bytes @ second_request_bytes"
        sample_request second_request_bytes reliable "[]" 0 first_echo_bytes False]
    by (simp add: ReadPacket_sample_bytes server_transmitResponse_reliable_wire
        response_wire_first_echo sample_opcodes)
  have e: "HandleIO reliable echo_handler MaxBodyLen_default
      \<lparr> inbound = sample_request_bytes @ second_request_bytes, outbound = [],
        worker = 0, closed = False \<rparr> =
     (None, \<lparr> inbound = [], outbound = first_echo_bytes @ second_echo_bytes, worker = 2,
        closed = True \<rparr>)"
    using HandleIO_two_requests [of reliable "\<lambda>out rq rs. out @ response_wire rq rs" "[]"]
    by (simp add: server_transmitResponse_reliable_wire response_wire_first_echo
        response_wire_second_echo)
  have q: "handleMessage reliable echo_handler MaxBodyLen_default
      \<lparr> inbound = quit_request_bytes @ second_request_bytes, outbound = [],
        worker = 0, closed = False \<rparr> =
     ((False, None),
      \<lparr> inbound = second_request_bytes, outbound = [], worker = 1, closed = False \<rparr>)"
    using handleMessage_fatal [of MaxBodyLen_default
        "\<lparr> inbound = quit_request_bytes @ second_request_bytes, outbound = [],
           worker = 0, closed = False \<rparr>"
        quit_request second_request_bytes echo_handler "fst (echo_handler 0 quit_request)" 1
        reliable]
    by (simp add: ReadPacket_quit_bytes echo_handler_def quit_request_def)
  have f: "HandleIO reliable echo_handler MaxBodyLen_default
      \<lparr> inbound = quit_request_bytes @ second_request_bytes, outbound = [],
        worker = 0, closed = False \<rparr> =
     (None, \<lparr> inbound = second_request_bytes, outbound = [], worker = 1, closed = True \<rparr>)"
    using HandleIO_loop_stop [OF q] by (simp add: HandleIO_def)
  have m: "handleMessage reliable echo_handler MaxBodyLen_default
      \<lparr> inbound = (0x13 # replicate 23 0) @ second_request_bytes, outbound = [],
        worker = 0, closed = False \<rparr> =
     ((False, None),
      \<lparr> inbound = second_request_bytes, outbound = [], worker = 0, closed = False \<rparr>)"
    using handleMessage_decode_failure [of MaxBodyLen_default
        "\<lparr> inbound = (0x13 # replicate 23 0) @ second_request_bytes, outbound = [],
           worker = 0, closed = False \<rparr>"
        MCRequest_zero "BadMagic 0x13" second_request_bytes reliable echo_handler]
      ReadPacket_wrong_magic [of MaxBodyLen_default second_request_bytes]
    by simp
  have g: "HandleIO reliable echo_handler MaxBodyLen_default
      \<lparr> inbound = (0x13 # replicate 23 0) @ second_request_bytes, outbound = [],
        worker = 0, closed = False \<rparr> =
     (None, \<lparr> inbound = second_request_bytes, outbound = [], worker = 0, closed = True \<rparr>)"
    using HandleIO_loop_stop [OF m] by (simp add: HandleIO_def)
  from a b c d e f g show ?thesis by blast
qed

end
